theory Spec2Isabelle
  imports Complex_Main
begin

section \<open>The calibration routine of the MRC eye tracker wrapper\<close>

text \<open>
  This theory embeds \<^verbatim>\<open>MRCEyeTracking.calibrate\<close> of \<^verbatim>\<open>mrc_eyetracker.py\<close>
  (lines 246 to 330). The routine talks to two collaborators whose code is not part of the
  repository: the vendor library behind the \<^verbatim>\<open>eye_*\<close> wrapper methods, and the
  PsychoPy window and keyboard. Both are modelled as an environment that answers every
  poll from a script, and every call the routine makes is appended to a trace.

  Conventions.
  \<^item> Line 271 of the source reads \<^verbatim>\<open>while calibration_message\<close> without the closing
    colon. The model reads it as the header of the loop formed by lines 272 to 282, as the
    indentation shows.
  \<^item> Python's \<^verbatim>\<open>int\<close> is \<^typ>\<open>int\<close>. A Python \<^verbatim>\<open>float\<close> and a \<^verbatim>\<open>c_double\<close> read
    from the device is the \<^typ>\<open>real\<close> it denotes, and every operation on floats rounds
    its exact result to a double.
  \<^item> A local variable that the source may read before it was assigned
    (\<^verbatim>\<open>calibration_message\<close>) is an \<^typ>\<open>bool option\<close>, \<^term>\<open>None\<close> meaning unbound.
  \<^item> The loops have no bound in the source. Each loop of the model takes a number of
    passes it may run (fuel); when that number is used up the run is left hanging in the
    state it has reached, and its result is \<^term>\<open>None\<close>.
\<close>

subsection \<open>Calls, environment, state\<close>

datatype printed = Str string | Num int

datatype stim = calibration_Text | repeat_Text

text \<open>
  One constructor per wrapper method or PsychoPy operation that \<^verbatim>\<open>calibrate\<close> invokes,
  with the arguments of the call. Constructing a stimulus object draws nothing and is not
  recorded; \<^verbatim>\<open>draw()\<close> and \<^verbatim>\<open>win.flip()\<close> are.
\<close>

datatype call =
    GetStatus
  | SetDisplayParameter int int int real
  | SetDisplayOffset int int
  | StartStream int
  | StartCalibrate int
  | StopCalibration
  | StopStream
  | GetCalibrationPoint
  | ClearEvents
  | GetKeys "string list"
  | DrawText stim bool
  | DrawCircle real "real list" "real \<times> real"
  | Flip
  | Print "printed list"

datatype error = UnboundLocalError

datatype completion = Normal | Raised error

text \<open>
  The scripted collaborators: the value the device reports at its n-th status poll, the
  keys the keyboard holds at the n-th \<^verbatim>\<open>getKeys\<close> call, and the three doubles the device
  writes at the n-th \<^verbatim>\<open>eye_get_calibration_point\<close> call.
\<close>

record env =
  status_script :: "nat \<Rightarrow> int"
  keys_script :: "nat \<Rightarrow> string list"
  point_script :: "nat \<Rightarrow> real \<times> real \<times> real"

text \<open>The keyword arguments of \<^verbatim>\<open>calibrate\<close> (line 246).\<close>

record config =
  calibration_points :: int
  screen_width :: int
  screen_height :: int
  distance_to_screen :: int
  pixel_size :: real
  dot_color :: "real list"
  dot_size :: real
  flipped :: bool

definition default_config :: config where
  "default_config =
     \<lparr>calibration_points = 9, screen_width = 1920, screen_height = 1080,
      distance_to_screen = 130, pixel_size = 333 / 1000, dot_color = [1, 1, 1],
      dot_size = 20, flipped = True\<rparr>"

text \<open>
  The trace, the number of polls answered so far, and the local variables of
  \<^verbatim>\<open>calibrate\<close> that live across loop iterations.
\<close>

record state =
  trace :: "call list"
  ns :: nat
  nk :: nat
  np :: nat
  calibration :: bool
  repeat_calibration :: bool
  calibration_running :: bool
  calibration_message :: "bool option"
  repeat_message :: bool
  point :: "real \<times> real \<times> real"

definition init_state :: state where
  "init_state =
     \<lparr>trace = [], ns = 0, nk = 0, np = 0, calibration = False, repeat_calibration = False,
      calibration_running = False, calibration_message = None, repeat_message = False,
      point = (0, 0, 0)\<rparr>"

subsection \<open>The wrapper methods and PsychoPy operations\<close>

definition emit :: "call \<Rightarrow> state \<Rightarrow> state" where
  "emit c s = s\<lparr>trace := trace s @ [c]\<rparr>"

definition eye_get_status :: "env \<Rightarrow> state \<Rightarrow> int \<times> state" where
  "eye_get_status e s = (status_script e (ns s), emit GetStatus (s\<lparr>ns := Suc (ns s)\<rparr>))"

definition eye_get_calibration_point :: "env \<Rightarrow> state \<Rightarrow> (real \<times> real \<times> real) \<times> state" where
  "eye_get_calibration_point e s =
     (point_script e (np s), emit GetCalibrationPoint (s\<lparr>np := Suc (np s)\<rparr>))"

definition eye_set_display_parameter :: "int \<Rightarrow> int \<Rightarrow> int \<Rightarrow> real \<Rightarrow> state \<Rightarrow> state" where
  "eye_set_display_parameter w h d p s = emit (SetDisplayParameter w h d p) s"

definition eye_set_display_offset :: "int \<Rightarrow> int \<Rightarrow> state \<Rightarrow> state" where
  "eye_set_display_offset dx dy s = emit (SetDisplayOffset dx dy) s"

definition eye_start_stream :: "int \<Rightarrow> state \<Rightarrow> state" where
  "eye_start_stream m s = emit (StartStream m) s"

definition eye_start_calibrate :: "int \<Rightarrow> state \<Rightarrow> state" where
  "eye_start_calibrate n s = emit (StartCalibrate n) s"

definition eye_stop_calibration :: "state \<Rightarrow> state" where
  "eye_stop_calibration s = emit StopCalibration s"

definition eye_stop_stream :: "state \<Rightarrow> state" where
  "eye_stop_stream s = emit StopStream s"

text \<open>
  \<^verbatim>\<open>getKeys(keyList = ks, waitRelease = False)\<close> returns the pressed keys that are in
  \<^verbatim>\<open>ks\<close>; the source only tests the result for emptiness.
\<close>

definition getKeys :: "env \<Rightarrow> string list \<Rightarrow> state \<Rightarrow> string list \<times> state" where
  "getKeys e ks s =
     (filter (\<lambda>k. k \<in> set ks) (keys_script e (nk s)), emit (GetKeys ks) (s\<lparr>nk := Suc (nk s)\<rparr>))"

definition clearEvents :: "state \<Rightarrow> state" where
  "clearEvents s = emit ClearEvents s"

definition draw_text :: "stim \<Rightarrow> config \<Rightarrow> state \<Rightarrow> state" where
  "draw_text t cfg s = emit (DrawText t (flipped cfg)) s"

definition win_flip :: "state \<Rightarrow> state" where
  "win_flip s = emit Flip s"

definition py_print :: "printed list \<Rightarrow> state \<Rightarrow> state" where
  "py_print xs s = emit (Print xs) s"

subsection \<open>Double arithmetic\<close>

text \<open>
  A Python \<^verbatim>\<open>float\<close> is an IEEE 754 double. A finite double is modelled as the real
  number it denotes, and an operation as the exact result rounded to the nearest double,
  ties to the even significand. \<open>scale\<close> brings a positive number to a significand in
  \<open>[2^52, 2^53)\<close> and an exponent, down to the exponent -1074 of the subnormal numbers.
  Infinities and NaN, and results beyond the largest double, where Python yields
  \<^verbatim>\<open>inf\<close> or raises \<^verbatim>\<open>OverflowError\<close>, are outside the model.
\<close>

definition pow2 :: "int \<Rightarrow> real" where
  "pow2 e = (if 0 \<le> e then 2 ^ nat e else 1 / 2 ^ nat (- e))"

definition round_half_even :: "real \<Rightarrow> int" where
  "round_half_even m =
     (let f = \<lfloor>m\<rfloor>; d = m - real_of_int f
      in if d < 1 / 2 then f else if 1 / 2 < d then f + 1 else if even f then f else f + 1)"

fun scale :: "nat \<Rightarrow> real \<Rightarrow> int \<Rightarrow> real \<times> int" where
  "scale 0 m e = (m, e)"
| "scale (Suc n) m e =
     (if 9007199254740992 \<le> m then scale n (m / 2) (e + 1)
      else if m < 4503599627370496 \<and> - 1074 < e then scale n (m * 2) (e - 1)
      else (m, e))"

definition round_double :: "real \<Rightarrow> real" where
  "round_double x =
     (if x = 0 then 0
      else (let (m, e) = scale 2200 \<bar>x\<bar> 0
            in sgn x * real_of_int (round_half_even m) * pow2 e))"

text \<open>
  \<^verbatim>\<open>x - y\<close> and \<^verbatim>\<open>x / y\<close> on floats (an \<^verbatim>\<open>int\<close> operand is converted first), and
  \<^verbatim>\<open>a / b\<close> on two \<^verbatim>\<open>int\<close>s, which Python rounds once, from the exact quotient.
\<close>

definition float_sub :: "real \<Rightarrow> real \<Rightarrow> real" where
  "float_sub x y = round_double (x - y)"

definition float_div :: "real \<Rightarrow> real \<Rightarrow> real" where
  "float_div x y = round_double (x / y)"

definition int_truediv :: "int \<Rightarrow> int \<Rightarrow> real" where
  "int_truediv a b = round_double (real_of_int a / real_of_int b)"

text \<open>Python's \<^verbatim>\<open>int(x)\<close> on a float: truncation toward zero.\<close>

definition py_int :: "real \<Rightarrow> int" where
  "py_int x = (if 0 \<le> x then \<lfloor>x\<rfloor> else - \<lfloor>- x\<rfloor>)"

subsection \<open>Geometry (lines 257 to 264 and 309)\<close>

definition tracking_groesse :: "config \<Rightarrow> int" where
  "tracking_groesse cfg = screen_height cfg"

definition vertical_groesse :: "config \<Rightarrow> int" where
  "vertical_groesse cfg = tracking_groesse cfg"

text \<open>Line 261: \<^verbatim>\<open>int(((screen_width-vertical_groesse)/2)-8)\<close>.\<close>

definition x_displace :: "config \<Rightarrow> int" where
  "x_displace cfg =
     py_int (float_sub (int_truediv (screen_width cfg - vertical_groesse cfg) 2) 8)"

definition y_displace :: int where
  "y_displace = - 30"

text \<open>
  Line 309: \<^verbatim>\<open>pos=(point[1]-tracking_groesse/2, tracking_groesse/2-point[2])\<close>.
\<close>

definition dot_pos :: "config \<Rightarrow> real \<times> real \<times> real \<Rightarrow> real \<times> real" where
  "dot_pos cfg p =
     (case p of (i, px, py) \<Rightarrow>
        (float_sub px (int_truediv (tracking_groesse cfg) 2),
         float_sub (int_truediv (tracking_groesse cfg) 2) py))"

text \<open>
  Lines 309 and 310: the circle that is built for the point read, with
  \<^verbatim>\<open>radius=dot_size / 2\<close>, and its drawing.
\<close>

definition stimulus :: "config \<Rightarrow> real \<times> real \<times> real \<Rightarrow> call" where
  "stimulus cfg p = DrawCircle (float_div (dot_size cfg) 2) (dot_color cfg) (dot_pos cfg p)"

definition draw_stimulus :: "config \<Rightarrow> real \<times> real \<times> real \<Rightarrow> state \<Rightarrow> state" where
  "draw_stimulus cfg p s = emit (stimulus cfg p) s"

subsection \<open>The loops\<close>

text \<open>
  A loop that is granted a number of passes either ends within them or uses them up. In
  both cases the state it has reached is kept, so that a run that never ends can be
  followed too. \<open>ended\<close> is the result of a run that ended.
\<close>

datatype 'a run = Ended 'a | Hanging state

definition ended :: "'a run \<Rightarrow> 'a option" where
  "ended r = (case r of Ended a \<Rightarrow> Some a | Hanging s \<Rightarrow> None)"

fun reached :: "state run \<Rightarrow> state" where
  "reached (Ended s) = s"
| "reached (Hanging s) = s"

fun reached_c :: "(completion \<times> state) run \<Rightarrow> state" where
  "reached_c (Ended r) = snd r"
| "reached_c (Hanging s) = s"

text \<open>
  Lines 271 to 282, the intro prompt. Reading \<^verbatim>\<open>calibration_message\<close> while it is
  unbound raises.
\<close>

fun intro_run :: "nat \<Rightarrow> env \<Rightarrow> config \<Rightarrow> state \<Rightarrow> (completion \<times> state) run" where
  "intro_run 0 e cfg s = Hanging s"
| "intro_run (Suc n) e cfg s =
     (case calibration_message s of
        None \<Rightarrow> Ended (Raised UnboundLocalError, s)
      | Some False \<Rightarrow> Ended (Normal, s)
      | Some True \<Rightarrow>
          (let (cancel_key, s1) = getKeys e [''q'', ''escape''] s;
               (continue_key, s2) = getKeys e [''space''] s1
           in if cancel_key \<noteq> [] then
                Ended (Normal, s2\<lparr>calibration := False, calibration_message := Some False\<rparr>)
              else
                (let s3 = (if continue_key \<noteq> [] then
                             (py_print [Str ''starting calibration''] s2)
                               \<lparr>calibration_message := Some False\<rparr>
                           else s2)
                 in intro_run n e cfg (win_flip (draw_text calibration_Text cfg s3)))))"

definition intro_loop :: "nat \<Rightarrow> env \<Rightarrow> config \<Rightarrow> state \<Rightarrow> (completion \<times> state) option" where
  "intro_loop n e cfg s = ended (intro_run n e cfg s)"

text \<open>Lines 295 to 311, one calibration run: the dot follows the device's point.\<close>

fun collecting_run :: "nat \<Rightarrow> env \<Rightarrow> config \<Rightarrow> state \<Rightarrow> state run" where
  "collecting_run 0 e cfg s = Hanging s"
| "collecting_run (Suc n) e cfg s =
     (if \<not> calibration_running s then Ended s
      else
        (let (cancel_key, s1) = getKeys e [''q'', ''escape''] s
         in if cancel_key \<noteq> [] then
              Ended ((eye_stop_stream (eye_stop_calibration
                        (py_print [Str ''Calibration aborted''] s1)))\<lparr>calibration := False\<rparr>)
            else
              (let (st, s2) = eye_get_status e s1;
                   s3 = (if st = 2 then
                           eye_stop_stream
                             ((eye_stop_calibration (py_print [Str ''calibration done''] s2))
                                \<lparr>calibration_running := False\<rparr>)
                         else s2);
                   (p, s4) = eye_get_calibration_point e s3;
                   s5 = s4\<lparr>point := p\<rparr>
               in collecting_run n e cfg (win_flip (draw_stimulus cfg p s5)))))"

definition collecting_loop :: "nat \<Rightarrow> env \<Rightarrow> config \<Rightarrow> state \<Rightarrow> state option" where
  "collecting_loop n e cfg s = ended (collecting_run n e cfg s)"

text \<open>Lines 315 to 328, the prompt after a completed calibration.\<close>

fun repeat_run :: "nat \<Rightarrow> env \<Rightarrow> config \<Rightarrow> state \<Rightarrow> state run" where
  "repeat_run 0 e cfg s = Hanging s"
| "repeat_run (Suc n) e cfg s =
     (if \<not> (repeat_message s \<and> \<not> repeat_calibration s) then Ended s
      else
        (let (cancel_key, s1) = getKeys e [''q'', ''escape'', ''space''] s;
             (repeat_key, s2) = getKeys e [''5''] s1
         in if cancel_key \<noteq> [] then
              Ended ((eye_stop_stream (eye_stop_calibration s2))
                       \<lparr>calibration := False, repeat_message := False\<rparr>)
            else
              (let s3 = (if repeat_key \<noteq> [] then
                           (py_print [Str ''repeating calibration''] s2)
                             \<lparr>repeat_calibration := True\<rparr>
                         else s2)
               in repeat_run n e cfg (win_flip (draw_text repeat_Text cfg s3)))))"

definition repeat_loop :: "nat \<Rightarrow> env \<Rightarrow> config \<Rightarrow> state \<Rightarrow> state option" where
  "repeat_loop n e cfg s = ended (repeat_run n e cfg s)"

text \<open>
  Lines 284 to 293, the head of one pass of the main loop: the status is polled twice
  (once for the \<^verbatim>\<open>print\<close>, once for the test), and the stream and the calibration are
  started when the device is not calibrated or a repeat was asked for.
\<close>

definition collecting_entry :: "env \<Rightarrow> config \<Rightarrow> state \<Rightarrow> state" where
  "collecting_entry e cfg s =
     (let s0 = s\<lparr>calibration_running := False\<rparr>;
          (shown, s1) = eye_get_status e s0;
          s2 = py_print [Num shown] s1;
          (st, s3) = eye_get_status e s2;
          s4 = (if st \<noteq> 2 \<or> repeat_calibration s3 then
                  (eye_start_calibrate (calibration_points cfg) (eye_start_stream 0 s3))
                    \<lparr>calibration_running := True, repeat_calibration := False\<rparr>
                else s3)
      in clearEvents (s4\<lparr>point := (0, 0, 0)\<rparr>))"

text \<open>
  Lines 312 to 328: after the collecting loop the status is polled once more, and the
  repeat prompt is shown when it reads 2.
\<close>

definition per_point_check_run :: "nat \<Rightarrow> env \<Rightarrow> config \<Rightarrow> state \<Rightarrow> state run" where
  "per_point_check_run fuel e cfg s =
     (let (st, s1) = eye_get_status e s
      in if st = 2 then repeat_run fuel e cfg ((clearEvents s1)\<lparr>repeat_message := True\<rparr>)
         else Ended s1)"

definition per_point_check :: "nat \<Rightarrow> env \<Rightarrow> config \<Rightarrow> state \<Rightarrow> state option" where
  "per_point_check fuel e cfg s = ended (per_point_check_run fuel e cfg s)"

text \<open>Lines 283 to 328, the main loop. The inner loops each get \<open>fuel\<close> passes.\<close>

fun calibration_run :: "nat \<Rightarrow> nat \<Rightarrow> env \<Rightarrow> config \<Rightarrow> state \<Rightarrow> state run" where
  "calibration_run 0 fuel e cfg s = Hanging s"
| "calibration_run (Suc k) fuel e cfg s =
     (if \<not> calibration s then Ended s
      else
        (case collecting_run fuel e cfg (collecting_entry e cfg s) of
           Hanging h \<Rightarrow> Hanging h
         | Ended s1 \<Rightarrow>
             (case per_point_check_run fuel e cfg s1 of
                Hanging h \<Rightarrow> Hanging h
              | Ended s2 \<Rightarrow> calibration_run k fuel e cfg s2)))"

definition calibration_loop :: "nat \<Rightarrow> nat \<Rightarrow> env \<Rightarrow> config \<Rightarrow> state \<Rightarrow> state option" where
  "calibration_loop k fuel e cfg s = ended (calibration_run k fuel e cfg s)"

subsection \<open>The routine\<close>

text \<open>
  Lines 254 to 270, from the first assignments to the \<^verbatim>\<open>clearEvents\<close> before the intro
  loop. Line 268 assigns \<^verbatim>\<open>calibration_message\<close> only when the second status poll
  does not read 2.
\<close>

definition before_intro :: "env \<Rightarrow> config \<Rightarrow> state \<Rightarrow> state" where
  "before_intro e cfg s0 =
     (let s1 = s0\<lparr>calibration := True, repeat_calibration := False\<rparr>;
          s2 = eye_set_display_parameter (vertical_groesse cfg) (tracking_groesse cfg)
                 (distance_to_screen cfg) (pixel_size cfg) s1;
          s3 = eye_set_display_offset (x_displace cfg) y_displace s2;
          s4 = py_print [Num (x_displace cfg), Num y_displace] s3;
          (st1, s5) = eye_get_status e s4;
          s6 = (if st1 \<noteq> 2 then s5\<lparr>calibration_message := Some True\<rparr> else s5)
      in clearEvents s6)"

text \<open>Lines 249 to 330.\<close>

definition calibrate_run :: "nat \<Rightarrow> env \<Rightarrow> config \<Rightarrow> (completion \<times> state) run" where
  "calibrate_run fuel e cfg =
     (let (st0, s0) = eye_get_status e init_state
      in if st0 \<noteq> - 1 then
           (case intro_run fuel e cfg (before_intro e cfg s0) of
              Hanging h \<Rightarrow> Hanging h
            | Ended (Raised x, s8) \<Rightarrow> Ended (Raised x, s8)
            | Ended (Normal, s8) \<Rightarrow>
                (case calibration_run fuel fuel e cfg s8 of
                   Hanging h \<Rightarrow> Hanging h
                 | Ended s9 \<Rightarrow> Ended (Normal, s9)))
         else Ended (Normal, py_print [Str ''error. Eyetracker not connected?''] s0))"

definition calibrate :: "nat \<Rightarrow> env \<Rightarrow> config \<Rightarrow> (completion \<times> state) option" where
  "calibrate fuel e cfg = ended (calibrate_run fuel e cfg)"

subsection \<open>Reading a trace\<close>

text \<open>
  Whether the stream is running after a sequence of calls: \<^verbatim>\<open>eye_start_stream\<close> opens it,
  \<^verbatim>\<open>eye_stop_stream\<close> closes it, every other call leaves it as it is.
\<close>

fun stream_step :: "bool \<Rightarrow> call \<Rightarrow> bool" where
  "stream_step b (StartStream m) = True"
| "stream_step b StopStream = False"
| "stream_step b c = b"

definition stream_open :: "call list \<Rightarrow> bool" where
  "stream_open cs = foldl stream_step False cs"

fun is_circle :: "call \<Rightarrow> bool" where
  "is_circle (DrawCircle r c p) = True"
| "is_circle c = False"

text \<open>
  Every point read so far has been drawn, in the order read, as the circle of line 309,
  and nothing else has been drawn as a circle.
\<close>

definition dots_follow_points :: "env \<Rightarrow> config \<Rightarrow> state \<Rightarrow> bool" where
  "dots_follow_points e cfg s =
     (filter is_circle (trace s) = map (\<lambda>k. stimulus cfg (point_script e k)) [0..<np s] \<and>
      count_list (trace s) GetCalibrationPoint = np s)"

fun is_start :: "call \<Rightarrow> bool" where
  "is_start (StartStream m) = True"
| "is_start (StartCalibrate n) = True"
| "is_start c = False"

subsection \<open>Scripted devices and keyboards\<close>

text \<open>A device that is not connected.\<close>

definition unconnected_device :: env where
  "unconnected_device =
     \<lparr>status_script = (\<lambda>n. - 1), keys_script = (\<lambda>n. []), point_script = (\<lambda>n. (0, 0, 0))\<rparr>"

text \<open>A device that is already calibrated when \<^verbatim>\<open>calibrate\<close> is entered.\<close>

definition calibrated_device :: env where
  "calibrated_device =
     \<lparr>status_script = (\<lambda>n. 2), keys_script = (\<lambda>n. []), point_script = (\<lambda>n. (0, 0, 0))\<rparr>"

text \<open>
  A full session: the device reads 0 for six polls and 2 from then on, it shows the point
  at the centre of the tracking region, and the subject presses space at the intro prompt
  (second key poll) and at the repeat prompt (sixth key poll).
\<close>

definition scripted_session :: env where
  "scripted_session =
     \<lparr>status_script = (\<lambda>n. if n < 6 then 0 else 2),
      keys_script = (\<lambda>n. if n = 1 \<or> n = 5 then [''space''] else []),
      point_script = (\<lambda>n. (1, 540, 540))\<rparr>"

text \<open>A connected device and a subject who presses q at once.\<close>

definition abort_at_intro :: env where
  "abort_at_intro =
     \<lparr>status_script = (\<lambda>n. 0), keys_script = (\<lambda>n. [''q'']), point_script = (\<lambda>n. (0, 0, 0))\<rparr>"

text \<open>A subject who presses space while the second frame of a prompt is shown.\<close>

definition space_on_second_frame :: env where
  "space_on_second_frame =
     \<lparr>status_script = (\<lambda>n. 0), keys_script = (\<lambda>n. if n = 3 then [''space''] else []),
      point_script = (\<lambda>n. (0, 0, 0))\<rparr>"

text \<open>A device whose status polls read -1, 0, 0 and then 2.\<close>

definition four_polls :: env where
  "four_polls =
     \<lparr>status_script = (\<lambda>n. if n = 0 then - 1 else if n < 3 then 0 else 2),
      keys_script = (\<lambda>n. []), point_script = (\<lambda>n. (real n, 100, 200))\<rparr>"

text \<open>A device whose status polls read -1, 0, 0, 2 and then 0 again.\<close>

definition four_polls_then_idle :: env where
  "four_polls_then_idle =
     \<lparr>status_script = (\<lambda>n. if n = 0 then - 1 else if n = 3 then 2 else 0),
      keys_script = (\<lambda>n. []), point_script = (\<lambda>n. (real n, 100, 200))\<rparr>"

text \<open>
  A subject who presses space at the intro prompt and q in the first pass of the collecting
  loop, on a device that reads 2 at the poll after the abort (the fifth poll) and 0
  otherwise.
\<close>

definition abort_then_calibrated :: env where
  "abort_then_calibrated =
     \<lparr>status_script = (\<lambda>n. if n = 4 then 2 else 0),
      keys_script = (\<lambda>n. if n = 1 then [''space''] else if n = 2 then [''q''] else []),
      point_script = (\<lambda>n. (0, 0, 0))\<rparr>"

text \<open>A subject who presses 5 at the repeat prompt, on a device that stays calibrated.\<close>

definition repeat_pressed :: env where
  "repeat_pressed =
     \<lparr>status_script = (\<lambda>n. 2), keys_script = (\<lambda>n. if n = 1 then [''5''] else []),
      point_script = (\<lambda>n. (0, 0, 0))\<rparr>"

text \<open>Keyboards that hold one key each.\<close>

definition space_pressed :: env where
  "space_pressed =
     \<lparr>status_script = (\<lambda>n. 2), keys_script = (\<lambda>n. [''space'']), point_script = (\<lambda>n. (0, 0, 0))\<rparr>"

definition escape_pressed :: env where
  "escape_pressed =
     \<lparr>status_script = (\<lambda>n. 2), keys_script = (\<lambda>n. [''escape'']), point_script = (\<lambda>n. (0, 0, 0))\<rparr>"

text \<open>A screen fifteen pixels wider than it is high.\<close>

definition narrow_config :: config where
  "narrow_config = default_config\<lparr>screen_width := 1095\<rparr>"

text \<open>States inside a loop: flags set as the loop's condition needs them.\<close>

definition at_intro :: state where
  "at_intro = init_state\<lparr>calibration := True, calibration_message := Some True\<rparr>"

definition at_collecting :: state where
  "at_collecting = init_state\<lparr>calibration := True, calibration_running := True\<rparr>"

definition at_repeat :: state where
  "at_repeat = init_state\<lparr>calibration := True, repeat_message := True\<rparr>"

section \<open>Properties\<close>

lemmas prims = emit_def eye_get_status_def eye_get_calibration_point_def
  eye_set_display_parameter_def eye_set_display_offset_def eye_start_stream_def
  eye_start_calibrate_def eye_stop_calibration_def eye_stop_stream_def getKeys_def
  clearEvents_def draw_text_def win_flip_def py_print_def draw_stimulus_def

subsection \<open>Evaluating double arithmetic\<close>

lemma scale_numeral:
  "scale (numeral k) m e =
     (if 9007199254740992 \<le> m then scale (pred_numeral k) (m / 2) (e + 1)
      else if m < 4503599627370496 \<and> - 1074 < e then scale (pred_numeral k) (m * 2) (e - 1)
      else (m, e))"
  by (simp add: numeral_eq_Suc)

lemmas float_eval = round_double_def float_sub_def float_div_def int_truediv_def scale_numeral
  round_half_even_def pow2_def Let_def

text \<open>
  Integers and halves of integers below \<open>2^53\<close> in magnitude are doubles: rounding leaves
  them as they are.
\<close>

lemma pow2_pred: "pow2 (e - 1) * 2 = pow2 e"
proof (cases "1 \<le> e")
  case True
  then have "nat e = Suc (nat (e - 1))" by simp
  with True show ?thesis by (simp add: pow2_def)
next
  case False
  then have "nat (- (e - 1)) = Suc (nat (- e))" by simp
  with False show ?thesis by (simp add: pow2_def)
qed

lemma scale_int:
  "0 < k \<Longrightarrow> real_of_int k < 9007199254740992 \<Longrightarrow>
     \<exists>k' e'. scale n (real_of_int k) e = (real_of_int k', e') \<and>
             real_of_int k' * pow2 e' = real_of_int k * pow2 e"
proof (induction n arbitrary: k e)
  case 0
  show ?case by simp
next
  case (Suc n)
  show ?case
  proof (cases "real_of_int k < 4503599627370496 \<and> - 1074 < e")
    case True
    have a: "0 < 2 * k" using Suc.prems(1) by simp
    have b: "real_of_int (2 * k) < 9007199254740992" using True by simp
    from Suc.IH [OF a b, of "e - 1"] obtain k' e' where
      "scale n (real_of_int (2 * k)) (e - 1) = (real_of_int k', e')"
      "real_of_int k' * pow2 e' = real_of_int (2 * k) * pow2 (e - 1)"
      by blast
    moreover have "real_of_int (2 * k) * pow2 (e - 1) = real_of_int k * pow2 e"
      using pow2_pred [of e] by simp
    moreover have "real_of_int (2 * k) = real_of_int k * 2" by simp
    ultimately show ?thesis
      using True Suc.prems(2) by (simp del: of_int_mult)
  next
    case False
    with Suc.prems(2) have "scale (Suc n) (real_of_int k) e = (real_of_int k, e)"
      by auto
    then show ?thesis by blast
  qed
qed

lemma round_half_even_int: "round_half_even (real_of_int k) = k"
  by (simp add: round_half_even_def)

lemma round_double_int:
  assumes "\<bar>z\<bar> < 9007199254740992"
  shows "round_double (real_of_int z) = real_of_int z"
proof (cases "z = 0")
  case True
  then show ?thesis by (simp add: round_double_def)
next
  case False
  then have pos: "0 < \<bar>z\<bar>" by simp
  have lt: "real_of_int \<bar>z\<bar> < 9007199254740992" using assms by linarith
  from scale_int [OF pos lt, of 2200 0] obtain k' e' where
    s: "scale 2200 (real_of_int \<bar>z\<bar>) 0 = (real_of_int k', e')" and
    v: "real_of_int k' * pow2 e' = real_of_int \<bar>z\<bar> * pow2 0"
    by blast
  have "round_double (real_of_int z) = sgn (real_of_int z) * (real_of_int k' * pow2 e')"
    using False s by (simp add: round_double_def round_half_even_int)
  also have "\<dots> = sgn (real_of_int z) * real_of_int \<bar>z\<bar>"
    using v by (simp add: pow2_def)
  also have "\<dots> = real_of_int z"
    by (simp add: sgn_if)
  finally show ?thesis .
qed

lemma round_double_half:
  assumes "\<bar>z\<bar> < 9007199254740992"
  shows "round_double (real_of_int z / 2) = real_of_int z / 2"
proof (cases "z = 0")
  case True
  then show ?thesis by (simp add: round_double_def)
next
  case False
  define a where "a = \<bar>real_of_int z / 2\<bar>"
  have pos: "0 < \<bar>z\<bar>" using False by simp
  have lt: "real_of_int \<bar>z\<bar> < 9007199254740992" using assms by linarith
  have a2: "a * 2 = real_of_int \<bar>z\<bar>" by (simp add: a_def)
  have small: "a < 4503599627370496" using lt a2 by linarith
  have step: "scale 2200 a 0 = scale 2199 (a * 2) (- 1)"
    using small by (simp add: scale_numeral)
  from scale_int [OF pos lt, of 2199 "- 1"] obtain k' e' where
    s: "scale 2199 (real_of_int \<bar>z\<bar>) (- 1) = (real_of_int k', e')" and
    v: "real_of_int k' * pow2 e' = real_of_int \<bar>z\<bar> * pow2 (- 1)"
    by blast
  have sc: "scale 2200 a 0 = (real_of_int k', e')"
    using step s a2 by simp
  have nz: "real_of_int z / 2 \<noteq> 0" using False by simp
  have "round_double (real_of_int z / 2) =
          sgn (real_of_int z / 2) * real_of_int (round_half_even (real_of_int k')) * pow2 e'"
    unfolding round_double_def a_def [symmetric] sc using nz by simp
  also have "\<dots> = sgn (real_of_int z / 2) * (real_of_int k' * pow2 e')"
    by (simp add: round_half_even_int)
  also have "\<dots> = sgn (real_of_int z / 2) * a"
    using v a2 by (simp add: pow2_def)
  also have "\<dots> = real_of_int z / 2"
    unfolding a_def by (simp add: sgn_if)
  finally show ?thesis .
qed

text \<open>The numbers of the default configuration and of the narrow screen.\<close>

lemma default_config_fields:
  "calibration_points default_config = 9"
  "screen_width default_config = 1920"
  "screen_height default_config = 1080"
  "distance_to_screen default_config = 130"
  "pixel_size default_config = 333 / 1000"
  "dot_color default_config = [1, 1, 1]"
  "dot_size default_config = 20"
  "flipped default_config = True"
  by (simp_all add: default_config_def)

lemma narrow_config_fields:
  "calibration_points narrow_config = 9"
  "screen_width narrow_config = 1095"
  "screen_height narrow_config = 1080"
  "distance_to_screen narrow_config = 130"
  "pixel_size narrow_config = 333 / 1000"
  "dot_color narrow_config = [1, 1, 1]"
  "dot_size narrow_config = 20"
  "flipped narrow_config = True"
  by (simp_all add: narrow_config_def default_config_def)

lemma x_displace_default: "x_displace default_config = 412"
  by (simp add: x_displace_def vertical_groesse_def tracking_groesse_def default_config_fields
      py_int_def float_eval)

lemma x_displace_narrow: "x_displace narrow_config = 0"
  by (simp add: x_displace_def vertical_groesse_def tracking_groesse_def narrow_config_fields
      py_int_def float_eval)

lemma radius_default: "float_div 20 2 = 10"
  by (simp add: float_eval)

lemma half_height_default: "int_truediv (tracking_groesse default_config) 2 = 540"
  by (simp add: tracking_groesse_def default_config_fields float_eval)

lemma dot_pos_centre: "dot_pos default_config (i, 540, 540) = (0, 0)"
  by (simp add: dot_pos_def half_height_default float_sub_def round_double_def)

lemma dot_pos_100_200: "dot_pos default_config (i, 100, 200) = (- 440, 340)"
  by (simp add: dot_pos_def half_height_default float_sub_def round_double_def scale_numeral
      round_half_even_def pow2_def Let_def)

lemmas geometry = y_displace_def vertical_groesse_def tracking_groesse_def
  default_config_fields narrow_config_fields x_displace_default x_displace_narrow
  stimulus_def radius_default dot_pos_centre dot_pos_100_200

subsection \<open>The loops, as far as they end\<close>

text \<open>The result of each loop, told by its first pass and the result of the rest.\<close>

lemma intro_loop_simps [simp]:
  "intro_loop 0 e cfg s = None"
  "intro_loop (Suc n) e cfg s =
     (case calibration_message s of
        None \<Rightarrow> Some (Raised UnboundLocalError, s)
      | Some False \<Rightarrow> Some (Normal, s)
      | Some True \<Rightarrow>
          (let (cancel_key, s1) = getKeys e [''q'', ''escape''] s;
               (continue_key, s2) = getKeys e [''space''] s1
           in if cancel_key \<noteq> [] then
                Some (Normal, s2\<lparr>calibration := False, calibration_message := Some False\<rparr>)
              else
                (let s3 = (if continue_key \<noteq> [] then
                             (py_print [Str ''starting calibration''] s2)
                               \<lparr>calibration_message := Some False\<rparr>
                           else s2)
                 in intro_loop n e cfg (win_flip (draw_text calibration_Text cfg s3)))))"
  by (simp_all add: intro_loop_def ended_def Let_def split: option.splits bool.splits prod.splits)

lemma collecting_loop_simps [simp]:
  "collecting_loop 0 e cfg s = None"
  "collecting_loop (Suc n) e cfg s =
     (if \<not> calibration_running s then Some s
      else
        (let (cancel_key, s1) = getKeys e [''q'', ''escape''] s
         in if cancel_key \<noteq> [] then
              Some ((eye_stop_stream (eye_stop_calibration
                       (py_print [Str ''Calibration aborted''] s1)))\<lparr>calibration := False\<rparr>)
            else
              (let (st, s2) = eye_get_status e s1;
                   s3 = (if st = 2 then
                           eye_stop_stream
                             ((eye_stop_calibration (py_print [Str ''calibration done''] s2))
                                \<lparr>calibration_running := False\<rparr>)
                         else s2);
                   (p, s4) = eye_get_calibration_point e s3;
                   s5 = s4\<lparr>point := p\<rparr>
               in collecting_loop n e cfg (win_flip (draw_stimulus cfg p s5)))))"
  by (simp_all add: collecting_loop_def ended_def Let_def split: prod.splits)

lemma repeat_loop_simps [simp]:
  "repeat_loop 0 e cfg s = None"
  "repeat_loop (Suc n) e cfg s =
     (if \<not> (repeat_message s \<and> \<not> repeat_calibration s) then Some s
      else
        (let (cancel_key, s1) = getKeys e [''q'', ''escape'', ''space''] s;
             (repeat_key, s2) = getKeys e [''5''] s1
         in if cancel_key \<noteq> [] then
              Some ((eye_stop_stream (eye_stop_calibration s2))
                      \<lparr>calibration := False, repeat_message := False\<rparr>)
            else
              (let s3 = (if repeat_key \<noteq> [] then
                           (py_print [Str ''repeating calibration''] s2)
                             \<lparr>repeat_calibration := True\<rparr>
                         else s2)
               in repeat_loop n e cfg (win_flip (draw_text repeat_Text cfg s3)))))"
  by (simp_all add: repeat_loop_def ended_def Let_def split: prod.splits)

lemma per_point_check_unfold:
  "per_point_check fuel e cfg s =
     (let (st, s1) = eye_get_status e s
      in if st = 2 then repeat_loop fuel e cfg ((clearEvents s1)\<lparr>repeat_message := True\<rparr>)
         else Some s1)"
  by (simp add: per_point_check_def per_point_check_run_def repeat_loop_def ended_def Let_def
      split: prod.splits)

lemma calibration_loop_simps [simp]:
  "calibration_loop 0 fuel e cfg s = None"
  "calibration_loop (Suc k) fuel e cfg s =
     (if \<not> calibration s then Some s
      else
        (case collecting_loop fuel e cfg (collecting_entry e cfg s) of
           None \<Rightarrow> None
         | Some s1 \<Rightarrow>
             (case per_point_check fuel e cfg s1 of
                None \<Rightarrow> None
              | Some s2 \<Rightarrow> calibration_loop k fuel e cfg s2)))"
  by (simp_all add: calibration_loop_def collecting_loop_def per_point_check_def ended_def
      split: run.splits)

lemma calibrate_unfold:
  "calibrate fuel e cfg =
     (let (st0, s0) = eye_get_status e init_state
      in if st0 \<noteq> - 1 then
           (case intro_loop fuel e cfg (before_intro e cfg s0) of
              None \<Rightarrow> None
            | Some (Raised x, s8) \<Rightarrow> Some (Raised x, s8)
            | Some (Normal, s8) \<Rightarrow>
                (case calibration_loop fuel fuel e cfg s8 of
                   None \<Rightarrow> None
                 | Some s9 \<Rightarrow> Some (Normal, s9)))
         else Some (Normal, py_print [Str ''error. Eyetracker not connected?''] s0))"
  by (simp add: calibrate_def calibrate_run_def intro_loop_def calibration_loop_def ended_def
      Let_def split: prod.splits run.splits completion.splits)

subsection \<open>A device that is not connected\<close>

text \<open>
  Claim C2. When the first status poll reads -1, \<^verbatim>\<open>calibrate\<close> returns at once, for any
  fuel: its only calls are that poll and the \<^verbatim>\<open>print\<close> of the error line. Nothing is
  drawn or flipped, no key is polled, and the device gets no display, stream or calibration
  call.
\<close>

theorem not_connected_returns_at_once:
  assumes "status_script e 0 = - 1"
  shows "calibrate fuel e cfg =
           Some (Normal,
                 init_state\<lparr>trace := [GetStatus, Print [Str ''error. Eyetracker not connected?'']],
                            ns := 1\<rparr>)"
  using assms by (simp add: calibrate_unfold prims init_state_def)

theorem not_connected_returns_at_once_witness:
  "calibrate 0 unconnected_device default_config =
     Some (Normal,
           init_state\<lparr>trace := [GetStatus, Print [Str ''error. Eyetracker not connected?'']],
                      ns := 1\<rparr>)"
  using not_connected_returns_at_once [of unconnected_device 0 default_config]
  by (simp add: unconnected_device_def)

subsection \<open>A device that is calibrated at entry\<close>

text \<open>
  Claim C6 says that the intro loop's flag is defined for every initial status other
  than -1. On a device that reads 2 at both polls before the loop, line 268 skips the only
  assignment of \<^verbatim>\<open>calibration_message\<close>, and the loop header at line 271 raises
  \<^verbatim>\<open>UnboundLocalError\<close>: the routine ends there, after the display calls and before the
  main loop.
\<close>

theorem calibrated_at_entry_raises:
  "calibrate 1 calibrated_device default_config =
     Some (Raised UnboundLocalError,
           init_state\<lparr>trace := [GetStatus, SetDisplayParameter 1080 1080 130 (333 / 1000),
                                 SetDisplayOffset 412 (- 30), Print [Num 412, Num (- 30)],
                                 GetStatus, ClearEvents],
                       ns := 2, calibration := True\<rparr>)"
  by (simp add: calibrate_unfold before_intro_def calibrated_device_def prims geometry
      init_state_def)

subsection \<open>The repeat prompt\<close>

text \<open>One pass of the repeat prompt, when a key of the cancel group is held.\<close>

lemma repeat_loop_cancel:
  assumes "repeat_message s" and "\<not> repeat_calibration s"
    and "k \<in> set (keys_script e (nk s))" and "k = ''q'' \<or> k = ''escape'' \<or> k = ''space''"
  shows "repeat_loop (Suc n) e cfg s =
           Some (s\<lparr>trace := trace s @ [GetKeys [''q'', ''escape'', ''space''], GetKeys [''5''],
                                        StopCalibration, StopStream],
                   nk := Suc (Suc (nk s)), calibration := False, repeat_message := False\<rparr>)"
proof -
  have "filter (\<lambda>k. k \<in> set [''q'', ''escape'', ''space'']) (keys_script e (nk s)) \<noteq> []"
    using assms(3,4) by (auto simp add: filter_empty_conv)
  then show ?thesis
    using assms(1,2) by (simp add: prims)
qed

text \<open>Two passes of the repeat prompt, when 5 is held and no key of the cancel group is.\<close>

lemma repeat_loop_repeat:
  assumes "repeat_message s" and "\<not> repeat_calibration s"
    and "\<forall>k \<in> {''q'', ''escape'', ''space''}. k \<notin> set (keys_script e (nk s))"
    and "''5'' \<in> set (keys_script e (Suc (nk s)))"
  shows "repeat_loop (Suc (Suc n)) e cfg s =
        Some (s\<lparr>trace := trace s @ [GetKeys [''q'', ''escape'', ''space''], GetKeys [''5''],
                                     Print [Str ''repeating calibration''],
                                     DrawText repeat_Text (flipped cfg), Flip],
                nk := Suc (Suc (nk s)), repeat_calibration := True\<rparr>)"
proof -
  have a: "filter (\<lambda>k. k \<in> set [''q'', ''escape'', ''space'']) (keys_script e (nk s)) = []"
    using assms(3) by (auto simp add: filter_empty_conv)
  have b: "filter (\<lambda>k. k \<in> set [''5'']) (keys_script e (Suc (nk s))) \<noteq> []"
    using assms(4) by (auto simp add: filter_empty_conv)
  show ?thesis
    using assms(1,2) a b by (simp add: prims)
qed

text \<open>
  Claim C9. At the repeat prompt, space on one side and q or escape on the other give the
  same result for every fuel: the polls of lines 316 and 317, then
  \<^verbatim>\<open>eye_stop_calibration\<close> and \<^verbatim>\<open>eye_stop_stream\<close>, with \<^verbatim>\<open>calibration\<close> and
  \<^verbatim>\<open>repeat_message\<close> cleared. Nothing in the resulting state tells an accepted
  calibration from an aborted one.
\<close>

theorem repeat_prompt_space_same_as_abort:
  assumes "repeat_message s" and "\<not> repeat_calibration s"
    and "keys_script e1 (nk s) = [''space'']"
    and "keys_script e2 (nk s) = [''q''] \<or> keys_script e2 (nk s) = [''escape'']"
  shows "repeat_loop fuel e1 cfg s = repeat_loop fuel e2 cfg s \<and>
         repeat_loop (Suc n) e1 cfg s =
           Some (s\<lparr>trace := trace s @ [GetKeys [''q'', ''escape'', ''space''], GetKeys [''5''],
                                        StopCalibration, StopStream],
                   nk := Suc (Suc (nk s)), calibration := False, repeat_message := False\<rparr>)"
proof -
  have one: "\<And>m. repeat_loop (Suc m) e1 cfg s =
           Some (s\<lparr>trace := trace s @ [GetKeys [''q'', ''escape'', ''space''], GetKeys [''5''],
                                        StopCalibration, StopStream],
                   nk := Suc (Suc (nk s)), calibration := False, repeat_message := False\<rparr>)"
    using assms(1,2,3) by (intro repeat_loop_cancel [where k = "''space''"]) simp_all
  have two: "\<And>m. repeat_loop (Suc m) e2 cfg s =
           Some (s\<lparr>trace := trace s @ [GetKeys [''q'', ''escape'', ''space''], GetKeys [''5''],
                                        StopCalibration, StopStream],
                   nk := Suc (Suc (nk s)), calibration := False, repeat_message := False\<rparr>)"
    using assms(4)
  proof
    assume "keys_script e2 (nk s) = [''q'']"
    then show "\<And>m. repeat_loop (Suc m) e2 cfg s =
           Some (s\<lparr>trace := trace s @ [GetKeys [''q'', ''escape'', ''space''], GetKeys [''5''],
                                        StopCalibration, StopStream],
                   nk := Suc (Suc (nk s)), calibration := False, repeat_message := False\<rparr>)"
      using assms(1,2) by (intro repeat_loop_cancel [where k = "''q''"]) simp_all
  next
    assume "keys_script e2 (nk s) = [''escape'']"
    then show "\<And>m. repeat_loop (Suc m) e2 cfg s =
           Some (s\<lparr>trace := trace s @ [GetKeys [''q'', ''escape'', ''space''], GetKeys [''5''],
                                        StopCalibration, StopStream],
                   nk := Suc (Suc (nk s)), calibration := False, repeat_message := False\<rparr>)"
      using assms(1,2) by (intro repeat_loop_cancel [where k = "''escape''"]) simp_all
  qed
  have "repeat_loop fuel e1 cfg s = repeat_loop fuel e2 cfg s"
  proof (cases fuel)
    case 0
    then show ?thesis by simp
  next
    case (Suc m)
    then show ?thesis by (simp only: one two)
  qed
  with one show ?thesis by blast
qed

theorem repeat_prompt_space_same_as_abort_witness:
  "repeat_loop 1 space_pressed default_config at_repeat =
     repeat_loop 1 escape_pressed default_config at_repeat \<and>
   repeat_loop (Suc 0) space_pressed default_config at_repeat =
     Some (at_repeat\<lparr>trace := [GetKeys [''q'', ''escape'', ''space''], GetKeys [''5''],
                                StopCalibration, StopStream],
                      nk := Suc (Suc 0), calibration := False, repeat_message := False\<rparr>)"
  using repeat_prompt_space_same_as_abort
          [of at_repeat space_pressed escape_pressed 1 default_config 0]
  by (simp add: at_repeat_def init_state_def space_pressed_def escape_pressed_def prims)

subsection \<open>The head of a pass of the main loop\<close>

lemma collecting_entry_start:
  assumes "repeat_calibration s \<or> status_script e (Suc (ns s)) \<noteq> 2"
  shows "collecting_entry e cfg s =
        s\<lparr>trace := trace s @ [GetStatus, Print [Num (status_script e (ns s))], GetStatus,
                              StartStream 0, StartCalibrate (calibration_points cfg), ClearEvents],
          ns := Suc (Suc (ns s)), calibration_running := True, repeat_calibration := False,
          point := (0, 0, 0)\<rparr>"
  using assms by (auto simp add: collecting_entry_def prims Let_def)

lemma collecting_entry_skip:
  assumes "\<not> repeat_calibration s" and "status_script e (Suc (ns s)) = 2"
  shows "collecting_entry e cfg s =
        s\<lparr>trace := trace s @ [GetStatus, Print [Num (status_script e (ns s))], GetStatus,
                              ClearEvents],
          ns := Suc (Suc (ns s)), calibration_running := False, point := (0, 0, 0)\<rparr>"
  using assms by (simp add: collecting_entry_def prims Let_def)

text \<open>
  Claim C5. When the repeat flag is set, or the status test of line 286 does not read 2,
  the head of the pass issues \<^verbatim>\<open>eye_start_stream(0)\<close> and then
  \<^verbatim>\<open>eye_start_calibrate(calibration_points)\<close> and clears the flag, whatever the status
  reads. When the flag is not set and the status reads 2, no start call is issued. Pressing
  5 at the repeat prompt, with no key of the cancel group held, leaves the prompt with the
  flag set and \<^verbatim>\<open>calibration\<close> unchanged, so that the next pass starts again.
\<close>

theorem repeat_flag_forces_restart:
  "(repeat_calibration s \<or> status_script e (Suc (ns s)) \<noteq> 2 \<longrightarrow>
      collecting_entry e cfg s =
        s\<lparr>trace := trace s @ [GetStatus, Print [Num (status_script e (ns s))], GetStatus,
                              StartStream 0, StartCalibrate (calibration_points cfg), ClearEvents],
          ns := Suc (Suc (ns s)), calibration_running := True, repeat_calibration := False,
          point := (0, 0, 0)\<rparr>) \<and>
   (\<not> repeat_calibration s \<and> status_script e (Suc (ns s)) = 2 \<longrightarrow>
      collecting_entry e cfg s =
        s\<lparr>trace := trace s @ [GetStatus, Print [Num (status_script e (ns s))], GetStatus,
                              ClearEvents],
          ns := Suc (Suc (ns s)), calibration_running := False, point := (0, 0, 0)\<rparr>) \<and>
   (repeat_message s \<and> \<not> repeat_calibration s \<and>
    (\<forall>k \<in> {''q'', ''escape'', ''space''}. k \<notin> set (keys_script e (nk s))) \<and>
    ''5'' \<in> set (keys_script e (Suc (nk s))) \<longrightarrow>
      repeat_loop (Suc (Suc n)) e cfg s =
        Some (s\<lparr>trace := trace s @ [GetKeys [''q'', ''escape'', ''space''], GetKeys [''5''],
                                     Print [Str ''repeating calibration''],
                                     DrawText repeat_Text (flipped cfg), Flip],
                nk := Suc (Suc (nk s)), repeat_calibration := True\<rparr>))"
  using collecting_entry_start [of s e cfg] collecting_entry_skip [of s e cfg]
    repeat_loop_repeat [of s e n cfg]
  by blast

theorem repeat_flag_forces_restart_witness:
  "collecting_entry repeat_pressed default_config (at_repeat\<lparr>repeat_calibration := True\<rparr>) =
     at_repeat\<lparr>trace := [GetStatus, Print [Num 2], GetStatus, StartStream 0, StartCalibrate 9,
                          ClearEvents],
               ns := Suc (Suc 0), calibration_running := True, repeat_calibration := False\<rparr> \<and>
   collecting_entry repeat_pressed default_config at_repeat =
     at_repeat\<lparr>trace := [GetStatus, Print [Num 2], GetStatus, ClearEvents],
               ns := Suc (Suc 0)\<rparr> \<and>
   repeat_loop (Suc (Suc 0)) repeat_pressed default_config at_repeat =
     Some (at_repeat\<lparr>trace := [GetKeys [''q'', ''escape'', ''space''], GetKeys [''5''],
                                Print [Str ''repeating calibration''],
                                DrawText repeat_Text True, Flip],
                      nk := Suc (Suc 0), repeat_calibration := True\<rparr>)"
  using repeat_flag_forces_restart
          [of "at_repeat\<lparr>repeat_calibration := True\<rparr>" repeat_pressed default_config 0]
        repeat_flag_forces_restart [of at_repeat repeat_pressed default_config 0]
  by (simp add: at_repeat_def init_state_def repeat_pressed_def default_config_def)

subsection \<open>Single passes of the loops\<close>

text \<open>
  What one pass of a loop does, by the keys held at its abort poll and the status read.
\<close>

lemma abort_poll_nonempty:
  assumes "''q'' \<in> set xs \<or> ''escape'' \<in> set xs"
  shows "filter (\<lambda>k. k \<in> set [''q'', ''escape'']) xs \<noteq> []"
  using assms by (auto simp add: filter_empty_conv)

lemma abort_poll_empty:
  assumes "''q'' \<notin> set xs \<and> ''escape'' \<notin> set xs"
  shows "filter (\<lambda>k. k \<in> set [''q'', ''escape'']) xs = []"
  using assms by (auto simp add: filter_empty_conv)

lemma collecting_loop_abort:
  assumes "calibration_running s"
    and "''q'' \<in> set (keys_script e (nk s)) \<or> ''escape'' \<in> set (keys_script e (nk s))"
  shows "collecting_loop (Suc n) e cfg s =
           Some (s\<lparr>trace := trace s @ [GetKeys [''q'', ''escape''],
                                        Print [Str ''Calibration aborted''],
                                        StopCalibration, StopStream],
                   nk := Suc (nk s), calibration := False\<rparr>)"
  using assms(1) abort_poll_nonempty [OF assms(2)] by (simp add: prims)

lemma collecting_loop_frame:
  assumes "calibration_running s"
    and "''q'' \<notin> set (keys_script e (nk s)) \<and> ''escape'' \<notin> set (keys_script e (nk s))"
    and "status_script e (ns s) \<noteq> 2"
  shows "collecting_loop (Suc n) e cfg s =
           collecting_loop n e cfg
             (s\<lparr>trace := trace s @ [GetKeys [''q'', ''escape''], GetStatus, GetCalibrationPoint,
                                     stimulus cfg (point_script e (np s)), Flip],
                ns := Suc (ns s), nk := Suc (nk s), np := Suc (np s),
                point := point_script e (np s)\<rparr>)"
  using assms(1,3) abort_poll_empty [OF assms(2)]
  apply (simp add: prims Let_def)
  apply (rule arg_cong [where f = "collecting_loop n e cfg"])
  apply simp
  done

lemma collecting_loop_done:
  assumes "calibration_running s"
    and "''q'' \<notin> set (keys_script e (nk s)) \<and> ''escape'' \<notin> set (keys_script e (nk s))"
    and "status_script e (ns s) = 2"
  shows "collecting_loop (Suc (Suc n)) e cfg s =
           Some (s\<lparr>trace := trace s @ [GetKeys [''q'', ''escape''], GetStatus,
                                        Print [Str ''calibration done''],
                                        StopCalibration, StopStream, GetCalibrationPoint,
                                        stimulus cfg (point_script e (np s)), Flip],
                   ns := Suc (ns s), nk := Suc (nk s), np := Suc (np s),
                   calibration_running := False, point := point_script e (np s)\<rparr>)"
  using assms(1,3) abort_poll_empty [OF assms(2)] by (simp add: prims Let_def)

lemma intro_loop_abort:
  assumes "calibration_message s = Some True"
    and "''q'' \<in> set (keys_script e (nk s)) \<or> ''escape'' \<in> set (keys_script e (nk s))"
  shows "intro_loop (Suc n) e cfg s =
           Some (Normal, s\<lparr>trace := trace s @ [GetKeys [''q'', ''escape''], GetKeys [''space'']],
                           nk := Suc (Suc (nk s)), calibration := False,
                           calibration_message := Some False\<rparr>)"
  using assms(1) abort_poll_nonempty [OF assms(2)] by (simp add: prims Let_def)

subsection \<open>How a run of the routine ends\<close>

text \<open>
  A run that ends does so in one of three ways: the device is not connected; the intro
  loop raises; or the intro loop and then the main loop end.
\<close>

lemma calibrate_cases:
  assumes "calibrate fuel e cfg = Some (c, s')"
  obtains
    (unconnected) "status_script e 0 = - 1" and "c = Normal" and
      "s' = py_print [Str ''error. Eyetracker not connected?''] (snd (eye_get_status e init_state))"
  | (raised) x where "status_script e 0 \<noteq> - 1" and "c = Raised x" and
      "intro_loop fuel e cfg (before_intro e cfg (snd (eye_get_status e init_state))) =
         Some (Raised x, s')"
  | (returned) s8 where "status_script e 0 \<noteq> - 1" and "c = Normal" and
      "intro_loop fuel e cfg (before_intro e cfg (snd (eye_get_status e init_state))) =
         Some (Normal, s8)" and
      "calibration_loop fuel fuel e cfg s8 = Some s'"
proof (cases "status_script e 0 = - 1")
  case True
  with assms have "c = Normal \<and>
      s' = py_print [Str ''error. Eyetracker not connected?''] (snd (eye_get_status e init_state))"
    by (auto simp add: calibrate_unfold eye_get_status_def init_state_def)
  with True unconnected show ?thesis by blast
next
  case False
  let ?s7 = "before_intro e cfg (snd (eye_get_status e init_state))"
  have run: "calibrate fuel e cfg =
     (case intro_loop fuel e cfg ?s7 of
        None \<Rightarrow> None
      | Some (Raised x, s8) \<Rightarrow> Some (Raised x, s8)
      | Some (Normal, s8) \<Rightarrow>
          (case calibration_loop fuel fuel e cfg s8 of
             None \<Rightarrow> None
           | Some s9 \<Rightarrow> Some (Normal, s9)))"
    using False by (simp add: calibrate_unfold eye_get_status_def init_state_def)
  show ?thesis
  proof (cases "intro_loop fuel e cfg ?s7")
    case None
    with assms run show ?thesis by simp
  next
    case (Some r)
    obtain c8 s8 where r: "r = (c8, s8)" by (cases r)
    show ?thesis
    proof (cases c8)
      case (Raised x)
      with assms run Some r have "c = Raised x \<and> s' = s8" by simp
      with False Some r Raised raised show ?thesis by blast
    next
      case Normal
      with assms run Some r have "calibration_loop fuel fuel e cfg s8 = Some s' \<and> c = Normal"
        by (auto split: option.splits)
      with False Some r Normal returned show ?thesis by blast
    qed
  qed
qed

text \<open>The full session, run to its end.\<close>

lemma scripted_session_run:
  "calibrate 5 scripted_session default_config =
     Some (Normal,
       init_state\<lparr>trace :=
      [GetStatus, SetDisplayParameter 1080 1080 130 (333 / 1000),
       SetDisplayOffset 412 (- 30), Print [Num 412, Num (- 30)], GetStatus,
       ClearEvents, GetKeys [''q'', ''escape''], GetKeys [''space''],
       Print [Str ''starting calibration''], DrawText calibration_Text True,
       Flip, GetStatus, Print [Num 0], GetStatus, StartStream 0,
       StartCalibrate 9, ClearEvents, GetKeys [''q'', ''escape''],
       GetStatus, GetCalibrationPoint, DrawCircle 10 [1, 1, 1] (0, 0), Flip,
       GetKeys [''q'', ''escape''], GetStatus, GetCalibrationPoint,
       DrawCircle 10 [1, 1, 1] (0, 0), Flip, GetKeys [''q'', ''escape''],
       GetStatus, Print [Str ''calibration done''], StopCalibration,
       StopStream, GetCalibrationPoint, DrawCircle 10 [1, 1, 1] (0, 0),
       Flip, GetStatus, ClearEvents, GetKeys [''q'', ''escape'', ''space''],
       GetKeys [''5''], StopCalibration, StopStream],
      ns := 8, nk := 7, np := 3, calibration_message := Some False,
      point := (1, 540, 540)\<rparr>)"
  by (simp add: calibrate_unfold before_intro_def scripted_session_def prims init_state_def Let_def
      eval_nat_numeral collecting_entry_def per_point_check_unfold geometry)

subsection \<open>The stream is closed when the routine ends\<close>

lemma stream_open_append:
  "stream_open (xs @ ys) = foldl stream_step (stream_open xs) ys"
  by (simp add: stream_open_def)

lemma closed_has_stop:
  assumes "\<not> stream_open cs" and "i < length cs" and "cs ! i = StartStream m"
  shows "\<exists>j. i < j \<and> j < length cs \<and> cs ! j = StopStream"
  using assms
proof (induction cs rule: rev_induct)
  case Nil
  then show ?case by simp
next
  case (snoc c cs)
  show ?case
  proof (cases "c = StopStream")
    case True
    have "i < length cs"
      using snoc.prems(2,3) True by (cases "i = length cs") (auto simp add: nth_append)
    then have "i < length cs \<and> length cs < length (cs @ [c]) \<and> (cs @ [c]) ! length cs = StopStream"
      using True by simp
    then show ?thesis by blast
  next
    case False
    have nostart: "\<forall>m. c \<noteq> StartStream m"
      using snoc.prems(1) by (cases c) (auto simp add: stream_open_append)
    have closed: "\<not> stream_open cs"
      using snoc.prems(1) False by (cases c) (auto simp add: stream_open_append)
    have less: "i < length cs"
      using snoc.prems(2,3) nostart by (cases "i = length cs") (auto simp add: nth_append)
    then have "cs ! i = StartStream m"
      using snoc.prems(3) by (simp add: nth_append)
    from snoc.IH [OF closed less this] obtain j where "i < j" "j < length cs" "cs ! j = StopStream"
      by blast
    then have "i < j \<and> j < length (cs @ [c]) \<and> (cs @ [c]) ! j = StopStream"
      by (simp add: nth_append)
    then show ?thesis by blast
  qed
qed

lemma intro_loop_closed:
  "intro_loop n e cfg s = Some (c, s') \<Longrightarrow> \<not> stream_open (trace s) \<Longrightarrow> \<not> stream_open (trace s')"
proof (induction n arbitrary: s)
  case 0
  then show ?case by simp
next
  case (Suc n)
  from Suc.prems show ?case
    by (auto simp add: prims Let_def stream_open_append split: option.splits bool.splits if_splits
        dest!: Suc.IH)
qed

lemma collecting_loop_closed:
  "collecting_loop n e cfg s = Some s' \<Longrightarrow> calibration_running s \<or> \<not> stream_open (trace s)
     \<Longrightarrow> \<not> stream_open (trace s')"
proof (induction n arbitrary: s)
  case 0
  then show ?case by simp
next
  case (Suc n)
  from Suc.prems show ?case
    by (auto simp add: prims stimulus_def Let_def stream_open_append split: if_splits
        dest!: Suc.IH)
qed

lemma repeat_loop_closed:
  "repeat_loop n e cfg s = Some s' \<Longrightarrow> \<not> stream_open (trace s) \<Longrightarrow> \<not> stream_open (trace s')"
proof (induction n arbitrary: s)
  case 0
  then show ?case by simp
next
  case (Suc n)
  from Suc.prems show ?case
    by (auto simp add: prims Let_def stream_open_append split: if_splits dest!: Suc.IH)
qed

lemma collecting_entry_closed:
  "\<not> stream_open (trace s) \<Longrightarrow>
     calibration_running (collecting_entry e cfg s) \<or> \<not> stream_open (trace (collecting_entry e cfg s))"
  by (simp add: collecting_entry_def prims Let_def stream_open_append)

lemma per_point_check_closed:
  "per_point_check fuel e cfg s = Some s' \<Longrightarrow> \<not> stream_open (trace s) \<Longrightarrow> \<not> stream_open (trace s')"
  by (auto simp add: per_point_check_unfold prims Let_def stream_open_append split: if_splits
      dest!: repeat_loop_closed)

lemma calibration_loop_closed:
  "calibration_loop k fuel e cfg s = Some s' \<Longrightarrow> \<not> stream_open (trace s) \<Longrightarrow> \<not> stream_open (trace s')"
proof (induction k arbitrary: s)
  case 0
  then show ?case by simp
next
  case (Suc k)
  show ?case
  proof (cases "calibration s")
    case False
    with Suc.prems show ?thesis by simp
  next
    case True
    with Suc.prems(1) obtain s1 s2 where
      a: "collecting_loop fuel e cfg (collecting_entry e cfg s) = Some s1" and
      b: "per_point_check fuel e cfg s1 = Some s2" and
      c: "calibration_loop k fuel e cfg s2 = Some s'"
      by (auto split: option.splits)
    have "\<not> stream_open (trace s1)"
      using collecting_loop_closed [OF a collecting_entry_closed [OF Suc.prems(2)]] .
    then have "\<not> stream_open (trace s2)"
      using per_point_check_closed [OF b] by simp
    then show ?thesis
      using Suc.IH [OF c] by simp
  qed
qed

lemma before_intro_closed:
  "\<not> stream_open (trace s) \<Longrightarrow> \<not> stream_open (trace (before_intro e cfg s))"
  by (simp add: before_intro_def prims Let_def stream_open_append)

lemma first_poll_closed: "\<not> stream_open (trace (snd (eye_get_status e init_state)))"
  by (simp add: prims init_state_def stream_open_def)

lemma calibrate_closed:
  assumes "calibrate fuel e cfg = Some (c, s')"
  shows "\<not> stream_open (trace s')"
  using assms
proof (cases rule: calibrate_cases)
  case unconnected
  then show ?thesis
    using first_poll_closed [of e] by (simp add: py_print_def emit_def stream_open_append)
next
  case (raised x)
  from intro_loop_closed [OF raised(3) before_intro_closed [OF first_poll_closed]]
  show ?thesis .
next
  case (returned s8)
  from intro_loop_closed [OF returned(3) before_intro_closed [OF first_poll_closed]]
  have "\<not> stream_open (trace s8)" .
  from calibration_loop_closed [OF returned(4) this] show ?thesis .
qed

text \<open>
  Claim C1. In every run of \<^verbatim>\<open>calibrate\<close> that ends, by a return or by the exception of
  line 271, the stream is closed at the end: every \<^verbatim>\<open>eye_start_stream\<close> call in the
  trace has an \<^verbatim>\<open>eye_stop_stream\<close> call after it. This covers every abort path; a
  run aborted at the intro prompt has started no stream.
\<close>

theorem stream_never_left_open:
  assumes "calibrate fuel e cfg = Some (c, s')"
  shows "\<not> stream_open (trace s') \<and>
         (\<forall>i m. i < length (trace s') \<and> trace s' ! i = StartStream m \<longrightarrow>
                (\<exists>j. i < j \<and> j < length (trace s') \<and> trace s' ! j = StopStream))"
  using calibrate_closed [OF assms] closed_has_stop [of "trace s'"] by blast

theorem stream_never_left_open_witness:
  "\<not> stream_open (trace (snd (the (calibrate 5 scripted_session default_config)))) \<and>
   (\<exists>j. 14 < j \<and> j < length (trace (snd (the (calibrate 5 scripted_session default_config)))) \<and>
        trace (snd (the (calibrate 5 scripted_session default_config))) ! j = StopStream)"
proof -
  let ?s = "snd (the (calibrate 5 scripted_session default_config))"
  have run: "calibrate 5 scripted_session default_config = Some (Normal, ?s)"
    by (simp add: scripted_session_run)
  have start: "14 < length (trace ?s) \<and> trace ?s ! 14 = StartStream 0"
    by (simp add: scripted_session_run)
  from stream_never_left_open [OF run] start show ?thesis by blast
qed

subsection \<open>Leaving the intro prompt\<close>

text \<open>
  One pass of the intro loop when no abort key is held, by whether space is held at the
  second poll of the pass.
\<close>

lemma space_poll_nonempty:
  assumes "''space'' \<in> set xs"
  shows "filter (\<lambda>k. k \<in> set [''space'']) xs \<noteq> []"
  using assms by (auto simp add: filter_empty_conv)

lemma space_poll_empty:
  assumes "''space'' \<notin> set xs"
  shows "filter (\<lambda>k. k \<in> set [''space'']) xs = []"
  using assms by (auto simp add: filter_empty_conv)

lemma intro_loop_space:
  assumes "calibration_message s = Some True"
    and "''q'' \<notin> set (keys_script e (nk s)) \<and> ''escape'' \<notin> set (keys_script e (nk s))"
    and "''space'' \<in> set (keys_script e (Suc (nk s)))"
  shows "intro_loop (Suc (Suc n)) e cfg s =
           Some (Normal,
                 s\<lparr>trace := trace s @ [GetKeys [''q'', ''escape''], GetKeys [''space''],
                                        Print [Str ''starting calibration''],
                                        DrawText calibration_Text (flipped cfg), Flip],
                   nk := Suc (Suc (nk s)), calibration_message := Some False\<rparr>)"
  using assms(1) abort_poll_empty [OF assms(2)] space_poll_nonempty [OF assms(3)]
  by (simp add: prims Let_def)

lemma intro_loop_space_short:
  assumes "calibration_message s = Some True"
    and "''q'' \<notin> set (keys_script e (nk s)) \<and> ''escape'' \<notin> set (keys_script e (nk s))"
    and "''space'' \<in> set (keys_script e (Suc (nk s)))"
  shows "intro_loop (Suc 0) e cfg s = None"
  using assms(1) abort_poll_empty [OF assms(2)] space_poll_nonempty [OF assms(3)]
  by (simp add: prims Let_def)

lemma intro_loop_idle:
  assumes "calibration_message s = Some True"
    and "''q'' \<notin> set (keys_script e (nk s)) \<and> ''escape'' \<notin> set (keys_script e (nk s))"
    and "''space'' \<notin> set (keys_script e (Suc (nk s)))"
  shows "intro_loop (Suc n) e cfg s =
           intro_loop n e cfg
             (s\<lparr>trace := trace s @ [GetKeys [''q'', ''escape''], GetKeys [''space''],
                                     DrawText calibration_Text (flipped cfg), Flip],
                nk := Suc (Suc (nk s))\<rparr>)"
  using assms(1) abort_poll_empty [OF assms(2)] space_poll_empty [OF assms(3)]
  apply (simp add: prims Let_def)
  apply (rule arg_cong [where f = "intro_loop n e cfg"])
  apply simp
  done

lemma intro_exit_needs_space:
  assumes "\<forall>k. ''q'' \<notin> set (keys_script e k) \<and> ''escape'' \<notin> set (keys_script e k)"
  shows "intro_loop n e cfg s = Some (c, s') \<Longrightarrow> calibration_message s = Some True \<Longrightarrow>
         c = Normal \<and> calibration s' = calibration s \<and> ns s' = ns s \<and>
         (\<exists>j. ''space'' \<in> set (keys_script e (nk s + 2 * j + 1)) \<and>
              (\<forall>i<j. ''space'' \<notin> set (keys_script e (nk s + 2 * i + 1))) \<and>
              nk s' = nk s + 2 * j + 2)"
proof (induction n arbitrary: s)
  case 0
  then show ?case by simp
next
  case (Suc n)
  have noabort: "''q'' \<notin> set (keys_script e (nk s)) \<and> ''escape'' \<notin> set (keys_script e (nk s))"
    using assms by blast
  show ?case
  proof (cases "''space'' \<in> set (keys_script e (Suc (nk s)))")
    case True
    show ?thesis
    proof (cases n)
      case 0
      with Suc.prems(1) intro_loop_space_short [OF Suc.prems(2) noabort True]
      show ?thesis by simp
    next
      case (Suc m)
      with Suc.prems(1) intro_loop_space [OF Suc.prems(2) noabort True, of m cfg]
      have "c = Normal \<and> calibration s' = calibration s \<and> ns s' = ns s \<and>
            nk s' = nk s + 2 * 0 + 2"
        by auto
      moreover have "''space'' \<in> set (keys_script e (nk s + 2 * 0 + 1))"
        using True by simp
      moreover have "\<forall>i<(0::nat). ''space'' \<notin> set (keys_script e (nk s + 2 * i + 1))"
        by simp
      ultimately show ?thesis by blast
    qed
  next
    case False
    let ?s1 = "s\<lparr>trace := trace s @ [GetKeys [''q'', ''escape''], GetKeys [''space''],
                                     DrawText calibration_Text (flipped cfg), Flip],
                nk := Suc (Suc (nk s))\<rparr>"
    have step: "intro_loop n e cfg ?s1 = Some (c, s')"
      using Suc.prems(1) intro_loop_idle [OF Suc.prems(2) noabort False, of n cfg] by simp
    have msg: "calibration_message ?s1 = Some True"
      using Suc.prems(2) by simp
    from Suc.IH [OF step msg] obtain j where
      j: "c = Normal" "calibration s' = calibration s" "ns s' = ns s"
         "''space'' \<in> set (keys_script e (nk s + 2 * Suc j + 1))"
         "\<forall>i<j. ''space'' \<notin> set (keys_script e (nk s + 2 * Suc i + 1))"
         "nk s' = nk s + 2 * Suc j + 2"
      by auto
    have "\<forall>i<Suc j. ''space'' \<notin> set (keys_script e (nk s + 2 * i + 1))"
    proof (intro allI impI)
      fix i assume "i < Suc j"
      show "''space'' \<notin> set (keys_script e (nk s + 2 * i + 1))"
      proof (cases i)
        case 0
        with False show ?thesis by simp
      next
        case (Suc i')
        with \<open>i < Suc j\<close> j(5) show ?thesis by simp
      qed
    qed
    with j show ?thesis by blast
  qed
qed

lemma intro_space_exits:
  assumes "\<forall>k. ''q'' \<notin> set (keys_script e k) \<and> ''escape'' \<notin> set (keys_script e k)"
  shows "calibration_message s = Some True \<Longrightarrow>
         ''space'' \<in> set (keys_script e (nk s + 2 * j + 1)) \<Longrightarrow>
         \<exists>r. intro_loop (j + 2) e cfg s = Some r"
proof (induction j arbitrary: s)
  case 0
  have noabort: "''q'' \<notin> set (keys_script e (nk s)) \<and> ''escape'' \<notin> set (keys_script e (nk s))"
    using assms by blast
  from 0 have "''space'' \<in> set (keys_script e (Suc (nk s)))" by simp
  from intro_loop_space [OF 0(1) noabort this, of 0 cfg] show ?case by simp
next
  case (Suc j)
  have noabort: "''q'' \<notin> set (keys_script e (nk s)) \<and> ''escape'' \<notin> set (keys_script e (nk s))"
    using assms by blast
  show ?case
  proof (cases "''space'' \<in> set (keys_script e (Suc (nk s)))")
    case True
    from intro_loop_space [OF Suc.prems(1) noabort True, of "Suc j" cfg] show ?thesis by simp
  next
    case False
    let ?s1 = "s\<lparr>trace := trace s @ [GetKeys [''q'', ''escape''], GetKeys [''space''],
                                     DrawText calibration_Text (flipped cfg), Flip],
                nk := Suc (Suc (nk s))\<rparr>"
    have msg: "calibration_message ?s1 = Some True"
      using Suc.prems(1) by simp
    have sp: "''space'' \<in> set (keys_script e (nk ?s1 + 2 * j + 1))"
      using Suc.prems(2) by simp
    from Suc.IH [OF msg sp] obtain r where "intro_loop (j + 2) e cfg ?s1 = Some r" by blast
    then have "intro_loop (Suc (j + 2)) e cfg s = Some r"
      using intro_loop_idle [OF Suc.prems(1) noabort False, of "j + 2" cfg] by simp
    then show ?thesis by simp
  qed
qed

lemma intro_loop_ignores_device:
  "intro_loop n (e\<lparr>status_script := f, point_script := g\<rparr>) cfg s = intro_loop n e cfg s"
proof (induction n arbitrary: s)
  case 0
  show ?case by simp
next
  case (Suc n)
  show ?case
    by (simp add: prims Let_def Suc.IH split: option.splits bool.splits)
qed

text \<open>
  Claim C7. Let the intro loop be entered, and let no key poll ever hold q or escape. Then
  every run of the loop that ends does so normally, with \<^verbatim>\<open>calibration\<close> unchanged and
  no status poll made, right after the first pass whose space poll held space. Conversely, if
  the space poll of pass \<open>j\<close> holds space, the loop ends within \<open>j + 2\<close> tests of its
  condition. What the device would report does not enter: the loop runs the same under any
  other status and point scripts.
\<close>

theorem intro_exits_only_on_space:
  assumes "calibration_message s = Some True"
    and "\<forall>k. ''q'' \<notin> set (keys_script e k) \<and> ''escape'' \<notin> set (keys_script e k)"
  shows "(\<forall>fuel c s'. intro_loop fuel e cfg s = Some (c, s') \<longrightarrow>
            c = Normal \<and> calibration s' = calibration s \<and> ns s' = ns s \<and>
            (\<exists>j. ''space'' \<in> set (keys_script e (nk s + 2 * j + 1)) \<and>
                 (\<forall>i<j. ''space'' \<notin> set (keys_script e (nk s + 2 * i + 1))) \<and>
                 nk s' = nk s + 2 * j + 2)) \<and>
         (\<forall>j. ''space'' \<in> set (keys_script e (nk s + 2 * j + 1)) \<longrightarrow>
              (\<exists>r. intro_loop (j + 2) e cfg s = Some r)) \<and>
         (\<forall>fuel f g. intro_loop fuel (e\<lparr>status_script := f, point_script := g\<rparr>) cfg s =
                     intro_loop fuel e cfg s)"
  using intro_exit_needs_space [OF assms(2) _ assms(1)] intro_space_exits [OF assms(2) assms(1)]
    intro_loop_ignores_device [where e = e and cfg = cfg and s = s]
  by blast

theorem intro_exits_only_on_space_witness:
  "intro_loop 3 space_on_second_frame default_config at_intro \<noteq> None \<and>
   intro_loop 1 space_on_second_frame default_config at_intro = None"
proof -
  have a: "calibration_message at_intro = Some True"
    by (simp add: at_intro_def)
  have b: "\<forall>k. ''q'' \<notin> set (keys_script space_on_second_frame k) \<and>
               ''escape'' \<notin> set (keys_script space_on_second_frame k)"
    by (simp add: space_on_second_frame_def)
  have c: "''space'' \<in> set (keys_script space_on_second_frame (nk at_intro + 2 * 1 + 1))"
    by (simp add: space_on_second_frame_def at_intro_def init_state_def)
  have short: "intro_loop 1 space_on_second_frame default_config at_intro = None"
    by (simp add: space_on_second_frame_def at_intro_def init_state_def prims Let_def)
  from intro_exits_only_on_space [OF a b, of default_config] c
  have "\<exists>r. intro_loop (1 + 2) space_on_second_frame default_config at_intro = Some r"
    by blast
  moreover have "(1::nat) + 2 = 3"
    by simp
  ultimately have "intro_loop 3 space_on_second_frame default_config at_intro \<noteq> None"
    by (auto simp only:)
  with short show ?thesis by blast
qed

subsection \<open>A calibration that completes at the fourth poll\<close>

text \<open>
  A device that reads -1, 0, 0 and 2 at the four status polls of the collecting loop and 0
  at the poll that follows: the loop ends after the fourth poll, the check of line 312
  returns without showing the repeat prompt, and the head of the next pass starts the stream
  and the calibration again. The four polls alone do not bring the controller to the repeat
  prompt.
\<close>

theorem four_polls_then_no_prompt:
  "collecting_loop 5 four_polls_then_idle default_config at_collecting =
     Some (at_collecting
             \<lparr>trace := [GetKeys [''q'', ''escape''], GetStatus, GetCalibrationPoint,
                        DrawCircle 10 [1, 1, 1] (- 440, 340), Flip,
                        GetKeys [''q'', ''escape''], GetStatus, GetCalibrationPoint,
                        DrawCircle 10 [1, 1, 1] (- 440, 340), Flip,
                        GetKeys [''q'', ''escape''], GetStatus, GetCalibrationPoint,
                        DrawCircle 10 [1, 1, 1] (- 440, 340), Flip,
                        GetKeys [''q'', ''escape''], GetStatus, Print [Str ''calibration done''],
                        StopCalibration, StopStream, GetCalibrationPoint,
                        DrawCircle 10 [1, 1, 1] (- 440, 340), Flip],
               ns := 4, nk := 4, np := 4, calibration_running := False,
               point := (3, 100, 200)\<rparr>) \<and>
   Option.bind (collecting_loop 5 four_polls_then_idle default_config at_collecting)
     (per_point_check 5 four_polls_then_idle default_config) =
     Some (at_collecting
             \<lparr>trace := [GetKeys [''q'', ''escape''], GetStatus, GetCalibrationPoint,
                        DrawCircle 10 [1, 1, 1] (- 440, 340), Flip,
                        GetKeys [''q'', ''escape''], GetStatus, GetCalibrationPoint,
                        DrawCircle 10 [1, 1, 1] (- 440, 340), Flip,
                        GetKeys [''q'', ''escape''], GetStatus, GetCalibrationPoint,
                        DrawCircle 10 [1, 1, 1] (- 440, 340), Flip,
                        GetKeys [''q'', ''escape''], GetStatus, Print [Str ''calibration done''],
                        StopCalibration, StopStream, GetCalibrationPoint,
                        DrawCircle 10 [1, 1, 1] (- 440, 340), Flip,
                        GetStatus],
               ns := 5, nk := 4, np := 4, calibration_running := False,
               point := (3, 100, 200)\<rparr>) \<and>
   map_option (collecting_entry four_polls_then_idle default_config)
     (Option.bind (collecting_loop 5 four_polls_then_idle default_config at_collecting)
        (per_point_check 5 four_polls_then_idle default_config)) =
     Some (at_collecting
             \<lparr>trace := [GetKeys [''q'', ''escape''], GetStatus, GetCalibrationPoint,
                        DrawCircle 10 [1, 1, 1] (- 440, 340), Flip,
                        GetKeys [''q'', ''escape''], GetStatus, GetCalibrationPoint,
                        DrawCircle 10 [1, 1, 1] (- 440, 340), Flip,
                        GetKeys [''q'', ''escape''], GetStatus, GetCalibrationPoint,
                        DrawCircle 10 [1, 1, 1] (- 440, 340), Flip,
                        GetKeys [''q'', ''escape''], GetStatus, Print [Str ''calibration done''],
                        StopCalibration, StopStream, GetCalibrationPoint,
                        DrawCircle 10 [1, 1, 1] (- 440, 340), Flip,
                        GetStatus, GetStatus, Print [Num 0], GetStatus, StartStream 0,
                        StartCalibrate 9, ClearEvents],
               ns := 7, nk := 4, np := 4\<rparr>)"
  by (simp add: four_polls_then_idle_def at_collecting_def init_state_def prims Let_def
      eval_nat_numeral collecting_entry_def per_point_check_unfold geometry)



subsection \<open>The abort keys\<close>

text \<open>Once \<^verbatim>\<open>calibration\<close> is cleared the main loop ends at its next test.\<close>

lemma calibration_loop_stopped:
  assumes "\<not> calibration s"
  shows "calibration_loop (Suc k) fuel e cfg s = Some s"
  using assms by simp


text \<open>
  The \<^verbatim>\<open>break\<close> of line 302 leaves the collecting loop only, and the check of line 312
  is not guarded by \<^verbatim>\<open>calibration\<close>. When the device reads 2 at that check, the repeat
  prompt is shown after the abort and the routine waits there for a key: here it is still
  waiting after three frames of the prompt.
\<close>

lemma abort_in_collecting_then_prompt:
  "calibrate_run 3 abort_then_calibrated default_config =
     Hanging
       (init_state
          \<lparr>trace :=
             [GetStatus, SetDisplayParameter 1080 1080 130 (333 / 1000),
              SetDisplayOffset 412 (- 30), Print [Num 412, Num (- 30)], GetStatus,
              ClearEvents, GetKeys [''q'', ''escape''], GetKeys [''space''],
              Print [Str ''starting calibration''], DrawText calibration_Text True,
              Flip, GetStatus, Print [Num 0], GetStatus, StartStream 0,
              StartCalibrate 9, ClearEvents, GetKeys [''q'', ''escape''],
              Print [Str ''Calibration aborted''], StopCalibration, StopStream,
              GetStatus, ClearEvents, GetKeys [''q'', ''escape'', ''space''],
              GetKeys [''5''], DrawText repeat_Text True, Flip,
              GetKeys [''q'', ''escape'', ''space''], GetKeys [''5''],
              DrawText repeat_Text True, Flip,
              GetKeys [''q'', ''escape'', ''space''], GetKeys [''5''],
              DrawText repeat_Text True, Flip],
            ns := 5, nk := 9, calibration_running := True,
            calibration_message := Some False, repeat_message := True\<rparr>)"
  by (simp add: calibrate_run_def before_intro_def abort_then_calibrated_def prims
      init_state_def Let_def eval_nat_numeral collecting_entry_def per_point_check_run_def
      geometry)



subsection \<open>Where the dot is drawn\<close>

text \<open>
  Every loop keeps the circles drawn in step with the points read, in runs that end and
  in runs that do not.
\<close>

lemma intro_run_dots:
  "dots_follow_points e cfg s \<Longrightarrow> dots_follow_points e cfg (reached_c (intro_run n e cfg s))"
proof (induction n arbitrary: s)
  case 0
  then show ?case by simp
next
  case (Suc n)
  note IH1 = Suc.IH [unfolded dots_follow_points_def, THEN conjunct1]
  note IH2 = Suc.IH [unfolded dots_follow_points_def, THEN conjunct2]
  show ?case
    using Suc.prems
    by (auto simp add: prims Let_def dots_follow_points_def
        split: option.splits bool.splits intro!: IH1 IH2)
qed

lemma stimulus_circle:
  "is_circle (stimulus cfg p)"
  "stimulus cfg p \<noteq> GetCalibrationPoint"
  "GetCalibrationPoint \<noteq> stimulus cfg p"
  by (simp_all add: stimulus_def)

lemma collecting_run_dots:
  "dots_follow_points e cfg s \<Longrightarrow> dots_follow_points e cfg (reached (collecting_run n e cfg s))"
proof (induction n arbitrary: s)
  case 0
  then show ?case by simp
next
  case (Suc n)
  note IH1 = Suc.IH [unfolded dots_follow_points_def, THEN conjunct1]
  note IH2 = Suc.IH [unfolded dots_follow_points_def, THEN conjunct2]
  show ?case
    using Suc.prems
    by (auto simp add: prims stimulus_circle Let_def dots_follow_points_def intro!: IH1 IH2)
qed

lemma repeat_run_dots:
  "dots_follow_points e cfg s \<Longrightarrow> dots_follow_points e cfg (reached (repeat_run n e cfg s))"
proof (induction n arbitrary: s)
  case 0
  then show ?case by simp
next
  case (Suc n)
  note IH1 = Suc.IH [unfolded dots_follow_points_def, THEN conjunct1]
  note IH2 = Suc.IH [unfolded dots_follow_points_def, THEN conjunct2]
  show ?case
    using Suc.prems
    by (auto simp add: prims Let_def dots_follow_points_def intro!: IH1 IH2)
qed

lemma collecting_entry_dots:
  "dots_follow_points e cfg s \<Longrightarrow> dots_follow_points e cfg (collecting_entry e cfg s)"
  by (simp add: collecting_entry_def prims Let_def dots_follow_points_def)

lemma per_point_check_run_dots:
  assumes "dots_follow_points e cfg s"
  shows "dots_follow_points e cfg (reached (per_point_check_run fuel e cfg s))"
proof (cases "status_script e (ns s) = 2")
  case True
  have "dots_follow_points e cfg
          ((clearEvents (snd (eye_get_status e s)))\<lparr>repeat_message := True\<rparr>)"
    using assms by (simp add: prims dots_follow_points_def)
  from repeat_run_dots [OF this] True show ?thesis
    by (simp add: per_point_check_run_def eye_get_status_def)
next
  case False
  with assms show ?thesis
    by (simp add: per_point_check_run_def prims dots_follow_points_def)
qed

lemma calibration_run_dots:
  "dots_follow_points e cfg s \<Longrightarrow>
     dots_follow_points e cfg (reached (calibration_run k fuel e cfg s))"
proof (induction k arbitrary: s)
  case 0
  then show ?case by simp
next
  case (Suc k)
  show ?case
  proof (cases "calibration s")
    case False
    with Suc.prems show ?thesis by simp
  next
    case True
    have c: "dots_follow_points e cfg
               (reached (collecting_run fuel e cfg (collecting_entry e cfg s)))"
      using collecting_run_dots [OF collecting_entry_dots [OF Suc.prems]] .
    show ?thesis
    proof (cases "collecting_run fuel e cfg (collecting_entry e cfg s)")
      case (Hanging h)
      with c True show ?thesis by simp
    next
      case (Ended s1)
      with c have s1: "dots_follow_points e cfg s1" by simp
      have p: "dots_follow_points e cfg (reached (per_point_check_run fuel e cfg s1))"
        using per_point_check_run_dots [OF s1] .
      show ?thesis
      proof (cases "per_point_check_run fuel e cfg s1")
        case (Hanging h)
        with p True Ended show ?thesis by simp
      next
        case (Ended s2)
        with p have "dots_follow_points e cfg s2" by simp
        from Suc.IH [OF this] True \<open>collecting_run fuel e cfg (collecting_entry e cfg s) = Ended s1\<close>
          Ended show ?thesis by simp
      qed
    qed
  qed
qed

lemma before_intro_dots:
  "dots_follow_points e cfg s \<Longrightarrow> dots_follow_points e cfg (before_intro e cfg s)"
  by (simp add: before_intro_def prims Let_def dots_follow_points_def)

lemma first_poll_dots: "dots_follow_points e cfg (snd (eye_get_status e init_state))"
  by (simp add: prims init_state_def dots_follow_points_def)

lemma calibrate_run_dots: "dots_follow_points e cfg (reached_c (calibrate_run fuel e cfg))"
proof (cases "status_script e 0 = - 1")
  case True
  then show ?thesis
    by (simp add: calibrate_run_def prims init_state_def dots_follow_points_def)
next
  case False
  let ?s7 = "before_intro e cfg (snd (eye_get_status e init_state))"
  have i: "dots_follow_points e cfg (reached_c (intro_run fuel e cfg ?s7))"
    using intro_run_dots [OF before_intro_dots [OF first_poll_dots]] .
  have run: "calibrate_run fuel e cfg =
     (case intro_run fuel e cfg ?s7 of
        Hanging h \<Rightarrow> Hanging h
      | Ended (Raised x, s8) \<Rightarrow> Ended (Raised x, s8)
      | Ended (Normal, s8) \<Rightarrow>
          (case calibration_run fuel fuel e cfg s8 of
             Hanging h \<Rightarrow> Hanging h
           | Ended s9 \<Rightarrow> Ended (Normal, s9)))"
    using False by (simp add: calibrate_run_def eye_get_status_def init_state_def)
  show ?thesis
  proof (cases "intro_run fuel e cfg ?s7")
    case (Hanging h)
    with i run show ?thesis by simp
  next
    case (Ended r)
    obtain c8 s8 where r: "r = (c8, s8)" by (cases r)
    from i Ended r have s8: "dots_follow_points e cfg s8" by simp
    show ?thesis
    proof (cases c8)
      case (Raised x)
      with run Ended r s8 show ?thesis by simp
    next
      case Normal
      have "dots_follow_points e cfg (reached (calibration_run fuel fuel e cfg s8))"
        using calibration_run_dots [OF s8] .
      with run Ended r Normal show ?thesis
        by (cases "calibration_run fuel fuel e cfg s8") simp_all
    qed
  qed
qed


lemma stimulus_formula:
  "stimulus cfg (point_script e k) =
     (case point_script e k of
        (i, px, py) \<Rightarrow>
          DrawCircle (float_div (dot_size cfg) 2) (dot_color cfg)
            (float_sub px (int_truediv (screen_height cfg) 2),
             float_sub (int_truediv (screen_height cfg) 2) py))"
  by (simp add: stimulus_def dot_pos_def tracking_groesse_def split: prod.splits)

lemma collecting_run_pass:
  assumes "calibration_running s"
    and "''q'' \<notin> set (keys_script e (nk s)) \<and> ''escape'' \<notin> set (keys_script e (nk s))"
  shows "collecting_run (Suc n) e cfg s =
           collecting_run n e cfg
             (s\<lparr>trace := trace s @ [GetKeys [''q'', ''escape''], GetStatus] @
                          (if status_script e (ns s) = 2
                           then [Print [Str ''calibration done''], StopCalibration, StopStream]
                           else []) @
                          [GetCalibrationPoint, stimulus cfg (point_script e (np s)), Flip],
                ns := Suc (ns s), nk := Suc (nk s), np := Suc (np s),
                calibration_running := status_script e (ns s) \<noteq> 2,
                point := point_script e (np s)\<rparr>)"
  using assms(1) abort_poll_empty [OF assms(2)]
  apply (simp add: prims Let_def)
  apply (intro conjI impI)
   apply (rule arg_cong [where f = "collecting_run n e cfg"])
   apply simp
  apply (rule arg_cong [where f = "collecting_run n e cfg"])
  apply simp
  done

lemma dot_pos_exact:
  assumes "\<bar>screen_height cfg\<bar> < 9007199254740992"
    and "\<bar>2 * a - screen_height cfg\<bar> < 9007199254740992"
    and "\<bar>screen_height cfg - 2 * b\<bar> < 9007199254740992"
  shows "dot_pos cfg (i, real_of_int a, real_of_int b) =
           (real_of_int a - real_of_int (screen_height cfg) / 2,
            real_of_int (screen_height cfg) / 2 - real_of_int b)"
proof -
  have h: "int_truediv (screen_height cfg) 2 = real_of_int (screen_height cfg) / 2"
    using round_double_half [OF assms(1)] by (simp add: int_truediv_def)
  have "real_of_int a - real_of_int (screen_height cfg) / 2 =
          real_of_int (2 * a - screen_height cfg) / 2"
    by simp
  then have x: "round_double (real_of_int a - real_of_int (screen_height cfg) / 2) =
                  real_of_int a - real_of_int (screen_height cfg) / 2"
    using round_double_half [OF assms(2)] by (simp only:)
  have "real_of_int (screen_height cfg) / 2 - real_of_int b =
          real_of_int (screen_height cfg - 2 * b) / 2"
    by simp
  then have y: "round_double (real_of_int (screen_height cfg) / 2 - real_of_int b) =
                  real_of_int (screen_height cfg) / 2 - real_of_int b"
    using round_double_half [OF assms(3)] by (simp only:)
  show ?thesis
    unfolding dot_pos_def tracking_groesse_def float_sub_def h using x y by simp
qed

lemma half_of_1080: "int_truediv 1080 2 = 540"
  by (simp add: float_eval)

lemma scripted_session_three_dots:
  "calibrate_run 3 scripted_session default_config =
     Hanging
       \<lparr>trace =
          [GetStatus, SetDisplayParameter 1080 1080 130 (333 / 1000),
           SetDisplayOffset 412 (- 30), Print [Num 412, Num (- 30)], GetStatus,
           ClearEvents, GetKeys [''q'', ''escape''], GetKeys [''space''],
           Print [Str ''starting calibration''], DrawText calibration_Text True,
           Flip, GetStatus, Print [Num 0], GetStatus, StartStream 0,
           StartCalibrate 9, ClearEvents, GetKeys [''q'', ''escape''], GetStatus,
           GetCalibrationPoint, DrawCircle 10 [1, 1, 1] (0, 0), Flip,
           GetKeys [''q'', ''escape''], GetStatus, GetCalibrationPoint,
           DrawCircle 10 [1, 1, 1] (0, 0), Flip, GetKeys [''q'', ''escape''],
           GetStatus, Print [Str ''calibration done''], StopCalibration,
           StopStream, GetCalibrationPoint, DrawCircle 10 [1, 1, 1] (0, 0),
           Flip],
        ns = 7, nk = 5, np = 3, calibration = True, repeat_calibration = False,
        calibration_running = False, calibration_message = Some False,
        repeat_message = False, point = (1, 540, 540)\<rparr>"
  by (simp add: calibrate_run_def before_intro_def collecting_entry_def scripted_session_def
      init_state_def prims geometry Let_def eval_nat_numeral)

text \<open>
  Claim C4. However far a run of \<^verbatim>\<open>calibrate\<close> has come, whether it has ended or not,
  the circles drawn so far are, in order, the points read from the device so far (as many
  as there were \<^verbatim>\<open>eye_get_calibration_point\<close> calls): the point \<open>(i, px, py)\<close> gives the
  circle at \<open>(px - h / 2, h / 2 - py)\<close> for the screen height \<open>h\<close>, the subtractions and
  the division being those of Python's doubles, with the radius and colour of the
  configuration. Every pass of the collecting loop that is not aborted reads a point,
  draws its circle there and flips the window. For whole-numbered coordinates below
  \<open>2^52\<close> the double operations are exact. At a screen height of 1080 the point
  \<open>(1, 540, 540)\<close> is drawn at \<open>(0, 0)\<close>.
\<close>

theorem dot_drawn_at_transformed_point:
  "(filter is_circle (trace (reached_c (calibrate_run fuel e cfg))) =
      map (\<lambda>k. case point_script e k of
                  (i, px, py) \<Rightarrow>
                    DrawCircle (float_div (dot_size cfg) 2) (dot_color cfg)
                      (float_sub px (int_truediv (screen_height cfg) 2),
                       float_sub (int_truediv (screen_height cfg) 2) py))
          [0..<np (reached_c (calibrate_run fuel e cfg))] \<and>
    count_list (trace (reached_c (calibrate_run fuel e cfg))) GetCalibrationPoint =
      np (reached_c (calibrate_run fuel e cfg))) \<and>
   (calibration_running s \<and>
    ''q'' \<notin> set (keys_script e (nk s)) \<and> ''escape'' \<notin> set (keys_script e (nk s)) \<longrightarrow>
      collecting_run (Suc n) e cfg s =
        collecting_run n e cfg
          (s\<lparr>trace := trace s @ [GetKeys [''q'', ''escape''], GetStatus] @
                       (if status_script e (ns s) = 2
                        then [Print [Str ''calibration done''], StopCalibration, StopStream]
                        else []) @
                       [GetCalibrationPoint,
                        (case point_script e (np s) of
                           (i, px, py) \<Rightarrow>
                             DrawCircle (float_div (dot_size cfg) 2) (dot_color cfg)
                               (float_sub px (int_truediv (screen_height cfg) 2),
                                float_sub (int_truediv (screen_height cfg) 2) py)),
                        Flip],
             ns := Suc (ns s), nk := Suc (nk s), np := Suc (np s),
             calibration_running := status_script e (ns s) \<noteq> 2,
             point := point_script e (np s)\<rparr>)) \<and>
   (\<bar>screen_height cfg\<bar> < 4503599627370496 \<and> \<bar>a\<bar> < 2251799813685248 \<and>
    \<bar>b\<bar> < 2251799813685248 \<longrightarrow>
      dot_pos cfg (j, real_of_int a, real_of_int b) =
        (real_of_int a - real_of_int (screen_height cfg) / 2,
         real_of_int (screen_height cfg) / 2 - real_of_int b)) \<and>
   (screen_height cfg = 1080 \<longrightarrow> dot_pos cfg (1, 540, 540) = (0, 0))"
proof -
  have run: "dots_follow_points e cfg (reached_c (calibrate_run fuel e cfg))"
    by (rule calibrate_run_dots)
  have pass: "calibration_running s \<and>
    ''q'' \<notin> set (keys_script e (nk s)) \<and> ''escape'' \<notin> set (keys_script e (nk s)) \<longrightarrow>
      collecting_run (Suc n) e cfg s =
        collecting_run n e cfg
          (s\<lparr>trace := trace s @ [GetKeys [''q'', ''escape''], GetStatus] @
                       (if status_script e (ns s) = 2
                        then [Print [Str ''calibration done''], StopCalibration, StopStream]
                        else []) @
                       [GetCalibrationPoint,
                        (case point_script e (np s) of
                           (i, px, py) \<Rightarrow>
                             DrawCircle (float_div (dot_size cfg) 2) (dot_color cfg)
                               (float_sub px (int_truediv (screen_height cfg) 2),
                                float_sub (int_truediv (screen_height cfg) 2) py)),
                        Flip],
             ns := Suc (ns s), nk := Suc (nk s), np := Suc (np s),
             calibration_running := status_script e (ns s) \<noteq> 2,
             point := point_script e (np s)\<rparr>)"
    using collecting_run_pass [of s e n cfg] unfolding stimulus_formula by blast
  have exact: "\<bar>screen_height cfg\<bar> < 4503599627370496 \<and> \<bar>a\<bar> < 2251799813685248 \<and>
    \<bar>b\<bar> < 2251799813685248 \<longrightarrow>
      dot_pos cfg (j, real_of_int a, real_of_int b) =
        (real_of_int a - real_of_int (screen_height cfg) / 2,
         real_of_int (screen_height cfg) / 2 - real_of_int b)"
  proof (intro impI)
    assume b: "\<bar>screen_height cfg\<bar> < 4503599627370496 \<and> \<bar>a\<bar> < 2251799813685248 \<and>
      \<bar>b\<bar> < 2251799813685248"
    then have "\<bar>screen_height cfg\<bar> < 9007199254740992"
      "\<bar>2 * a - screen_height cfg\<bar> < 9007199254740992"
      "\<bar>screen_height cfg - 2 * b\<bar> < 9007199254740992"
      by linarith+
    then show "dot_pos cfg (j, real_of_int a, real_of_int b) =
        (real_of_int a - real_of_int (screen_height cfg) / 2,
         real_of_int (screen_height cfg) / 2 - real_of_int b)"
      by (rule dot_pos_exact)
  qed
  have centre: "screen_height cfg = 1080 \<longrightarrow> dot_pos cfg (1, 540, 540) = (0, 0)"
    by (simp add: dot_pos_def tracking_groesse_def half_of_1080 float_sub_def round_double_def)
  from run have "filter is_circle (trace (reached_c (calibrate_run fuel e cfg))) =
      map (\<lambda>k. case point_script e k of
                  (i, px, py) \<Rightarrow>
                    DrawCircle (float_div (dot_size cfg) 2) (dot_color cfg)
                      (float_sub px (int_truediv (screen_height cfg) 2),
                       float_sub (int_truediv (screen_height cfg) 2) py))
          [0..<np (reached_c (calibrate_run fuel e cfg))] \<and>
    count_list (trace (reached_c (calibrate_run fuel e cfg))) GetCalibrationPoint =
      np (reached_c (calibrate_run fuel e cfg))"
    unfolding dots_follow_points_def stimulus_formula .
  with pass exact centre show ?thesis by blast
qed

theorem dot_drawn_at_transformed_point_witness:
  "filter is_circle (trace (reached_c (calibrate_run 3 scripted_session default_config))) =
     [DrawCircle 10 [1, 1, 1] (0, 0), DrawCircle 10 [1, 1, 1] (0, 0),
      DrawCircle 10 [1, 1, 1] (0, 0)] \<and>
   collecting_run (Suc 0) scripted_session default_config at_collecting =
     Hanging
       (at_collecting
          \<lparr>trace := [GetKeys [''q'', ''escape''], GetStatus, GetCalibrationPoint,
                      DrawCircle 10 [1, 1, 1] (0, 0), Flip],
           ns := 1, nk := 1, np := 1, point := (1, 540, 540)\<rparr>) \<and>
   dot_pos default_config (1, 100, 200) = (- 440, 340) \<and>
   dot_pos default_config (1, 540, 540) = (0, 0)"
proof -
  note t = dot_drawn_at_transformed_point
             [of 3 scripted_session default_config at_collecting 0 100 200 1]
  have np: "np (reached_c (calibrate_run 3 scripted_session default_config)) = 3"
    by (simp add: scripted_session_three_dots)
  have upt: "[0..<3] = [0, Suc 0, Suc (Suc 0)]"
    by (simp add: eval_nat_numeral)
  have pt: "point_script scripted_session k = (1, 540, 540)" for k
    by (simp add: scripted_session_def)
  have st: "status_script scripted_session 0 = 0" "keys_script scripted_session 0 = []"
    by (simp_all add: scripted_session_def)
  have r: "float_div 20 2 = 10" "int_truediv 1080 2 = 540" "float_sub 540 540 = 0"
    by (simp_all add: radius_default half_of_1080 float_sub_def round_double_def)
  have a: "filter is_circle
             (trace (reached_c (calibrate_run 3 scripted_session default_config))) =
           [DrawCircle 10 [1, 1, 1] (0, 0), DrawCircle 10 [1, 1, 1] (0, 0),
            DrawCircle 10 [1, 1, 1] (0, 0)]"
    using t [THEN conjunct1, THEN conjunct1]
    by (simp add: np upt pt r default_config_fields)
  have b: "collecting_run (Suc 0) scripted_session default_config at_collecting =
     Hanging
       (at_collecting
          \<lparr>trace := [GetKeys [''q'', ''escape''], GetStatus, GetCalibrationPoint,
                      DrawCircle 10 [1, 1, 1] (0, 0), Flip],
           ns := 1, nk := 1, np := 1, point := (1, 540, 540)\<rparr>)"
    using t [THEN conjunct2, THEN conjunct1]
    by (simp add: at_collecting_def init_state_def st pt r default_config_fields
        del: collecting_run.simps(2))
  have c: "dot_pos default_config (1, 100, 200) = (- 440, 340)"
    using t [THEN conjunct2, THEN conjunct2, THEN conjunct1]
    by (simp add: default_config_fields)
  have d: "dot_pos default_config (1, 540, 540) = (0, 0)"
    using t [THEN conjunct2, THEN conjunct2, THEN conjunct2]
    by (simp add: default_config_fields)
  from a b c d show ?thesis by blast
qed

subsection \<open>The display geometry\<close>

text \<open>A loop only appends to the trace: what the trace starts with stays.\<close>

lemma intro_run_keeps:
  "\<exists>ext. trace s = pre @ ext \<Longrightarrow>
     \<exists>ext. trace (reached_c (intro_run n e cfg s)) = pre @ ext"
proof (induction n arbitrary: s)
  case 0
  then show ?case by simp
next
  case (Suc n)
  from Suc.prems show ?case
    by (auto simp add: prims Let_def split: option.splits bool.splits intro!: Suc.IH)
qed

lemma collecting_run_keeps:
  "\<exists>ext. trace s = pre @ ext \<Longrightarrow>
     \<exists>ext. trace (reached (collecting_run n e cfg s)) = pre @ ext"
proof (induction n arbitrary: s)
  case 0
  then show ?case by simp
next
  case (Suc n)
  from Suc.prems show ?case
    by (auto simp add: prims Let_def intro!: Suc.IH)
qed

lemma repeat_run_keeps:
  "\<exists>ext. trace s = pre @ ext \<Longrightarrow>
     \<exists>ext. trace (reached (repeat_run n e cfg s)) = pre @ ext"
proof (induction n arbitrary: s)
  case 0
  then show ?case by simp
next
  case (Suc n)
  from Suc.prems show ?case
    by (auto simp add: prims Let_def intro!: Suc.IH)
qed

lemma collecting_entry_keeps:
  "\<exists>ext. trace s = pre @ ext \<Longrightarrow> \<exists>ext. trace (collecting_entry e cfg s) = pre @ ext"
  by (auto simp add: collecting_entry_def prims Let_def)

lemma per_point_check_run_keeps:
  assumes "\<exists>ext. trace s = pre @ ext"
  shows "\<exists>ext. trace (reached (per_point_check_run fuel e cfg s)) = pre @ ext"
proof (cases "status_script e (ns s) = 2")
  case True
  have "\<exists>ext. trace ((clearEvents (snd (eye_get_status e s)))\<lparr>repeat_message := True\<rparr>) =
          pre @ ext"
    using assms by (auto simp add: prims)
  from repeat_run_keeps [OF this] True show ?thesis
    by (simp add: per_point_check_run_def eye_get_status_def)
next
  case False
  with assms show ?thesis
    by (auto simp add: per_point_check_run_def prims)
qed

lemma calibration_run_keeps:
  "\<exists>ext. trace s = pre @ ext \<Longrightarrow>
     \<exists>ext. trace (reached (calibration_run k fuel e cfg s)) = pre @ ext"
proof (induction k arbitrary: s)
  case 0
  then show ?case by simp
next
  case (Suc k)
  show ?case
  proof (cases "calibration s")
    case False
    with Suc.prems show ?thesis by simp
  next
    case True
    have c: "\<exists>ext. trace (reached (collecting_run fuel e cfg (collecting_entry e cfg s))) =
               pre @ ext"
      using collecting_run_keeps [OF collecting_entry_keeps [OF Suc.prems]] .
    show ?thesis
    proof (cases "collecting_run fuel e cfg (collecting_entry e cfg s)")
      case (Hanging h)
      with c True show ?thesis by simp
    next
      case (Ended s1)
      with c have s1: "\<exists>ext. trace s1 = pre @ ext" by simp
      have p: "\<exists>ext. trace (reached (per_point_check_run fuel e cfg s1)) = pre @ ext"
        using per_point_check_run_keeps [OF s1] .
      show ?thesis
      proof (cases "per_point_check_run fuel e cfg s1")
        case (Hanging h)
        with p True Ended show ?thesis by simp
      next
        case (Ended s2)
        with p have "\<exists>ext. trace s2 = pre @ ext" by simp
        from Suc.IH [OF this] True
          \<open>collecting_run fuel e cfg (collecting_entry e cfg s) = Ended s1\<close> Ended
        show ?thesis by simp
      qed
    qed
  qed
qed

text \<open>The first calls of a run on a connected device.\<close>

lemma before_intro_trace:
  "\<exists>ext. trace (before_intro e cfg (snd (eye_get_status e init_state))) =
     [GetStatus,
      SetDisplayParameter (screen_height cfg) (screen_height cfg) (distance_to_screen cfg)
        (pixel_size cfg),
      SetDisplayOffset (x_displace cfg) (- 30)] @ ext"
  by (simp add: before_intro_def prims Let_def init_state_def vertical_groesse_def
      tracking_groesse_def y_displace_def)

lemma calibrate_run_first_calls:
  assumes "status_script e 0 \<noteq> - 1"
  shows "\<exists>ext. trace (reached_c (calibrate_run fuel e cfg)) =
     [GetStatus,
      SetDisplayParameter (screen_height cfg) (screen_height cfg) (distance_to_screen cfg)
        (pixel_size cfg),
      SetDisplayOffset (x_displace cfg) (- 30)] @ ext"
proof -
  let ?s7 = "before_intro e cfg (snd (eye_get_status e init_state))"
  let ?pre = "[GetStatus,
      SetDisplayParameter (screen_height cfg) (screen_height cfg) (distance_to_screen cfg)
        (pixel_size cfg),
      SetDisplayOffset (x_displace cfg) (- 30)]"
  have i: "\<exists>ext. trace (reached_c (intro_run fuel e cfg ?s7)) = ?pre @ ext"
    using intro_run_keeps [OF before_intro_trace] .
  have run: "calibrate_run fuel e cfg =
     (case intro_run fuel e cfg ?s7 of
        Hanging h \<Rightarrow> Hanging h
      | Ended (Raised x, s8) \<Rightarrow> Ended (Raised x, s8)
      | Ended (Normal, s8) \<Rightarrow>
          (case calibration_run fuel fuel e cfg s8 of
             Hanging h \<Rightarrow> Hanging h
           | Ended s9 \<Rightarrow> Ended (Normal, s9)))"
    using assms by (simp add: calibrate_run_def eye_get_status_def init_state_def)
  show ?thesis
  proof (cases "intro_run fuel e cfg ?s7")
    case (Hanging h)
    with i run show ?thesis by simp
  next
    case (Ended r)
    obtain c8 s8 where r: "r = (c8, s8)" by (cases r)
    from i Ended r have s8: "\<exists>ext. trace s8 = ?pre @ ext" by simp
    show ?thesis
    proof (cases c8)
      case (Raised x)
      with run Ended r s8 show ?thesis by simp
    next
      case Normal
      have "\<exists>ext. trace (reached (calibration_run fuel fuel e cfg s8)) = ?pre @ ext"
        using calibration_run_keeps [OF s8] .
      with run Ended r Normal show ?thesis
        by (cases "calibration_run fuel fuel e cfg s8") simp_all
    qed
  qed
qed

text \<open>
  Below \<open>2^52\<close> the division and the subtraction of line 261 are exact, and the offset is
  the truncated number; for an even margin that is the integer quotient less 8.
\<close>

lemma py_int_of_int: "py_int (real_of_int z) = z"
  by (simp add: py_int_def)

lemma x_displace_exact:
  assumes "\<bar>screen_width cfg - screen_height cfg\<bar> < 4503599627370496"
  shows "x_displace cfg = py_int (real_of_int (screen_width cfg - screen_height cfg) / 2 - 8)"
proof -
  let ?d = "screen_width cfg - screen_height cfg"
  have a: "\<bar>?d\<bar> < 9007199254740992" and b: "\<bar>?d - 16\<bar> < 9007199254740992"
    using assms by linarith+
  have h: "int_truediv ?d 2 = real_of_int ?d / 2"
    using round_double_half [OF a] by (simp add: int_truediv_def)
  have "real_of_int ?d / 2 - 8 = real_of_int (?d - 16) / 2"
    by simp
  then have "round_double (real_of_int ?d / 2 - 8) = real_of_int ?d / 2 - 8"
    using round_double_half [OF b] by (simp only:)
  then show ?thesis
    unfolding x_displace_def vertical_groesse_def tracking_groesse_def float_sub_def h
    by simp
qed

lemma truncated_even:
  assumes "even (d::int)"
  shows "py_int (real_of_int d / 2 - 8) = d div 2 - 8"
proof -
  from assms have "\<exists>m. d = 2 * m"
    unfolding dvd_def .
  then obtain m where m: "d = 2 * m"
    by blast
  have "real_of_int (2 * m) / 2 - 8 = real_of_int (m - 8)" by simp
  then have "py_int (real_of_int (2 * m) / 2 - 8) = m - 8"
    using py_int_of_int [of "m - 8"] by simp
  then show ?thesis
    by (simp add: m)
qed




end
